theory Spec2Isabelle
  imports Complex_Main
begin

section \<open>Audit logger (src/core/medical\_logger.py)\<close>

text \<open>
  The three named loggers of \<^verbatim>\<open>_setup_loggers\<close> each own one rotating file handler.
  A stream is the sequence of records its handler has emitted, oldest first; a record is
  the level and the message (the timestamp that the formatter puts in front is left out,
  and so is the split of a stream into the live file and its backups).
\<close>

datatype level = INFO | WARNING | ERROR | CRITICAL

fun levelno :: "level \<Rightarrow> nat" where
  "levelno INFO = 20"
| "levelno WARNING = 30"
| "levelno ERROR = 40"
| "levelno CRITICAL = 50"

type_synonym log_record = "level \<times> string"

record medical_logger =
  lock_held :: bool
  event_stream :: "log_record list"
  error_stream :: "log_record list"
  audit_stream :: "log_record list"

text \<open>The state after \<^verbatim>\<open>_setup_loggers\<close>: handlers cleared, lock free.\<close>

definition logger_setup :: medical_logger where
  "logger_setup = \<lparr>lock_held = False, event_stream = [], error_stream = [], audit_stream = []\<rparr>"

text \<open>
  \<^verbatim>\<open>Logger.log\<close> of the standard library: a record below the logger's level is dropped,
  otherwise the handler appends it. The levels are the ones set in \<^verbatim>\<open>_setup_loggers\<close>:
  INFO for the event and audit loggers, ERROR for the error logger.
\<close>

definition emit :: "level \<Rightarrow> level \<Rightarrow> string \<Rightarrow> log_record list \<Rightarrow> log_record list" where
  "emit threshold lvl msg stream =
     (if levelno threshold \<le> levelno lvl then stream @ [(lvl, msg)] else stream)"

definition event_logger :: "level \<Rightarrow> string \<Rightarrow> medical_logger \<Rightarrow> medical_logger" where
  "event_logger lvl msg s = s\<lparr>event_stream := emit INFO lvl msg (event_stream s)\<rparr>"

definition error_logger :: "level \<Rightarrow> string \<Rightarrow> medical_logger \<Rightarrow> medical_logger" where
  "error_logger lvl msg s = s\<lparr>error_stream := emit ERROR lvl msg (error_stream s)\<rparr>"

definition audit_logger :: "level \<Rightarrow> string \<Rightarrow> medical_logger \<Rightarrow> medical_logger" where
  "audit_logger lvl msg s = s\<lparr>audit_stream := emit INFO lvl msg (audit_stream s)\<rparr>"

text \<open>
  \<^verbatim>\<open>str.upper\<close> on the ASCII letters; every other byte is kept (the non-ASCII letters
  that Python also maps are outside this model).
\<close>

definition upper_char :: "char \<Rightarrow> char" where
  "upper_char c =
     (if 97 \<le> (of_char c :: nat) \<and> (of_char c :: nat) \<le> 122
      then char_of ((of_char c :: nat) - 32) else c)"

definition upper :: "string \<Rightarrow> string" where
  "upper s = map upper_char s"

text \<open>
  \<^verbatim>\<open>with self._lock:\<close> where \<^verbatim>\<open>_lock\<close> is a \<^verbatim>\<open>threading.Lock()\<close>. The lock is not
  reentrant: acquiring it while it is held blocks until another thread releases it. All
  logging runs on one thread, so an acquire on a held lock never returns; \<open>None\<close> is
  "the call does not return". The lock is released when the body is left.
\<close>

definition with_lock :: "(medical_logger \<Rightarrow> medical_logger option) \<Rightarrow> medical_logger \<Rightarrow> medical_logger option" where
  "with_lock body s =
     (if lock_held s then None
      else (case body (s\<lparr>lock_held := True\<rparr>) of
              None \<Rightarrow> None
            | Some s' \<Rightarrow> Some (s'\<lparr>lock_held := False\<rparr>)))"

definition log_event :: "string \<Rightarrow> string \<Rightarrow> string \<Rightarrow> medical_logger \<Rightarrow> medical_logger option" where
  "log_event event_type message severity =
     with_lock (\<lambda>s.
       let formatted_message = event_type @ '' | '' @ message in
       if upper severity = ''INFO'' then Some (event_logger INFO formatted_message s)
       else if upper severity = ''WARNING'' then Some (event_logger WARNING formatted_message s)
       else if upper severity = ''ERROR'' then
         Some (error_logger ERROR formatted_message (event_logger ERROR formatted_message s))
       else if upper severity = ''CRITICAL'' then
         Some (error_logger CRITICAL formatted_message (event_logger CRITICAL formatted_message s))
       else Some s)"

definition log_user_action :: "string \<Rightarrow> string \<Rightarrow> medical_logger \<Rightarrow> medical_logger option" where
  "log_user_action action details =
     (let message = ''USER_ACTION | '' @ action;
          message = (if details \<noteq> [] then message @ '' | '' @ details else message)
      in with_lock (\<lambda>s.
           log_event ''USER_ACTION'' (action @ '' - '' @ details) ''INFO''
             (audit_logger INFO message s)))"

definition log_file_operation :: "string \<Rightarrow> string \<Rightarrow> string \<Rightarrow> medical_logger \<Rightarrow> medical_logger option" where
  "log_file_operation operation filepath result =
     (let message = ''FILE_OP | '' @ operation @ '' | '' @ filepath @ '' | '' @ result
      in with_lock (\<lambda>s.
           let s1 = audit_logger INFO message s in
           if result = ''SUCCESS'' then log_event ''FILE_OPERATION'' message ''INFO'' s1
           else log_event ''FILE_OPERATION'' message ''ERROR'' s1))"

definition log_image_processing :: "string \<Rightarrow> string \<Rightarrow> string \<Rightarrow> medical_logger \<Rightarrow> medical_logger option" where
  "log_image_processing operation image_info result =
     (let message = ''IMAGE_PROC | '' @ operation @ '' | '' @ image_info @ '' | '' @ result
      in with_lock (\<lambda>s.
           let s1 = audit_logger INFO message s in
           if result = ''SUCCESS'' then log_event ''IMAGE_PROCESSING'' message ''INFO'' s1
           else log_event ''IMAGE_PROCESSING'' message ''ERROR'' s1))"

definition log_system_event :: "string \<Rightarrow> string \<Rightarrow> medical_logger \<Rightarrow> medical_logger option" where
  "log_system_event event details =
     (let message = ''SYSTEM | '' @ event;
          message = (if details \<noteq> [] then message @ '' | '' @ details else message)
      in with_lock (\<lambda>s.
           log_event ''SYSTEM'' (event @ '' - '' @ details) ''INFO''
             (audit_logger INFO message s)))"

definition log_error :: "string \<Rightarrow> string \<Rightarrow> string option \<Rightarrow> medical_logger \<Rightarrow> medical_logger option" where
  "log_error error_type error_message stack_trace =
     (let message = ''ERROR | '' @ error_type @ '' | '' @ error_message;
          message = (case stack_trace of
                       None \<Rightarrow> message
                     | Some t \<Rightarrow> if t \<noteq> [] then message @ '' | STACK: '' @ t else message)
      in with_lock (\<lambda>s.
           log_event ''ERROR'' message ''ERROR''
             (audit_logger ERROR message (error_logger ERROR message s))))"

section \<open>Values shared by the image processor and the renderer\<close>

text \<open>
  Python floats are modelled by \<^typ>\<open>real\<close>: rounding is not part of the model. What an
  external library call answers (SimpleITK, VTK, the file system) is an input of the model:
  either the call raises an exception with a message, or it returns a value.
\<close>

datatype 'a lib = Raises string | Returns 'a

text \<open>
  The decoded image that \<^verbatim>\<open>ImageSeriesReader.Execute\<close> returns, as far as this repository
  reads it. Its accessors are field reads. The pixel buffer is represented by its scalar
  range, the only thing the renderer asks of it.
\<close>

record sitk_image =
  img_size :: "int list"
  img_spacing :: "real list"
  img_origin :: "real list"
  img_direction :: "real list"
  img_pixel_type :: string
  img_components :: int
  img_meta_data :: "(string \<times> string) list"
  img_scalar_range :: "real \<times> real"

record vtk_image_data =
  vtk_dimensions :: "int list"
  vtk_spacing :: "real list"
  vtk_origin :: "real list"
  vtk_scalar_range :: "real \<times> real"

record polydata =
  number_of_points :: nat
  number_of_cells :: nat
  bounds :: "real list"

text \<open>Metadata values, and a Python dict as an association list in insertion order.\<close>

datatype pyval = PyStr string | PyInt int | PyInts "int list" | PyFloats "real list"

type_synonym dict = "(string \<times> pyval) list"

fun dict_setitem :: "dict \<Rightarrow> string \<Rightarrow> pyval \<Rightarrow> dict" where
  "dict_setitem [] k v = [(k, v)]"
| "dict_setitem ((k', v') # d) k v =
     (if k' = k then (k, v) # d else (k', v') # dict_setitem d k v)"

text \<open>
  What an operation does to the outside: a call of a logger method (the method and its
  first argument) or a Qt signal with its text. Interpolated values that are not strings
  (tuples of numbers, the text of a caught exception in renderer messages, stack traces)
  are left out of the text. Calls to the logger are recorded here and not run: the logger
  is an object handed to the constructor, and its own behaviour is the subject of the
  first section.
\<close>

datatype log_method =
  Log_error | Log_user_action | Log_file_operation | Log_image_processing | Log_system_event

datatype signal = ImageLoaded | ErrorOccurred | StatusUpdate | RenderingComplete

datatype effect = Log log_method string | Emit signal string

section \<open>Image processor (src/core/image\_processor.py)\<close>

record image_processor =
  current_sitk_image :: "sitk_image option"
  current_vtk_image :: "vtk_image_data option"
  current_polydata :: "polydata option"
  image_metadata :: dict

text \<open>The fields after \<^verbatim>\<open>__init__\<close>.\<close>

definition image_processor_init :: image_processor where
  "image_processor_init =
     \<lparr>current_sitk_image = None, current_vtk_image = None, current_polydata = None,
      image_metadata = []\<rparr>"

text \<open>
  The answers of the file system and of SimpleITK during one call on a directory:
  whether the module was imported, whether the path exists, the series ids, the file names
  of a series, and the result of reading it.
\<close>

record dicom_reader =
  SIMPLEITK_AVAILABLE :: bool
  directory_exists :: bool
  GetGDCMSeriesIDs :: "string list lib"
  GetGDCMSeriesFileNames :: "string \<Rightarrow> string list lib"
  Execute :: "sitk_image lib"

definition extract_dicom_metadata :: "sitk_image \<Rightarrow> nat \<Rightarrow> image_processor \<Rightarrow> image_processor" where
  "extract_dicom_metadata img num_files p =
     (let metadata =
            [(''image_type'', PyStr ''DICOM''),
             (''size'', PyInts (img_size img)),
             (''spacing'', PyFloats (img_spacing img)),
             (''origin'', PyFloats (img_origin img)),
             (''direction'', PyFloats (img_direction img)),
             (''pixel_type'', PyStr (img_pixel_type img)),
             (''number_of_components'', PyInt (img_components img)),
             (''num_files'', PyInt (int num_files))];
          metadata = foldl (\<lambda>m (key, v). dict_setitem m key (PyStr v)) metadata (img_meta_data img)
      in p\<lparr>image_metadata := metadata\<rparr>)"

definition dicom_load_failed :: "image_processor \<Rightarrow> effect list \<Rightarrow> string \<Rightarrow> image_processor \<times> effect list \<times> sitk_image option" where
  "dicom_load_failed p logged e =
     (p, logged @ [Log Log_error ''DICOM_LOAD'', Emit ErrorOccurred (''Failed to load DICOM series: '' @ e)],
      None)"

definition load_dicom_series :: "dicom_reader \<Rightarrow> string \<Rightarrow> image_processor \<Rightarrow> image_processor \<times> effect list \<times> sitk_image option" where
  "load_dicom_series env directory p =
     (if \<not> SIMPLEITK_AVAILABLE env then
        (p, [Log Log_error ''DICOM_LOAD'',
             Emit ErrorOccurred ''SimpleITK not available. Cannot load DICOM files.''], None)
      else if \<not> directory_exists env then
        (p, [Log Log_error ''DICOM_LOAD'',
             Emit ErrorOccurred (''Directory does not exist: '' @ directory)], None)
      else
        let started = [Log Log_file_operation ''DICOM_LOAD_START''] in
        case GetGDCMSeriesIDs env of
          Raises e \<Rightarrow> dicom_load_failed p started e
        | Returns series_ids \<Rightarrow>
            (case series_ids of
               [] \<Rightarrow>
                 (p, started @ [Log Log_error ''DICOM_LOAD'',
                      Emit ErrorOccurred (''No DICOM series found in directory: '' @ directory)], None)
             | series_id # _ \<Rightarrow>
                 (case GetGDCMSeriesFileNames env series_id of
                    Raises e \<Rightarrow> dicom_load_failed p started e
                  | Returns dicom_names \<Rightarrow>
                      if dicom_names = [] then
                        (p, started @ [Log Log_error ''DICOM_LOAD'',
                             Emit ErrorOccurred (''No DICOM files found for series: '' @ series_id)], None)
                      else
                        (case Execute env of
                           Raises e \<Rightarrow> dicom_load_failed p started e
                         | Returns img \<Rightarrow>
                             (extract_dicom_metadata img (length dicom_names)
                                (p\<lparr>current_sitk_image := Some img\<rparr>),
                              started @ [Log Log_file_operation ''DICOM_LOAD_SUCCESS'',
                                Log Log_image_processing ''DICOM_LOADED'',
                                Emit ImageLoaded ''DICOM''],
                              Some img)))))"

text \<open>
  One call on an STL file: whether the path exists, what the reader's output is after
  \<^verbatim>\<open>Update\<close>, and the file size that \<^verbatim>\<open>stat\<close> reports.
\<close>

record stl_reader =
  file_exists :: bool
  GetOutput :: "polydata lib"
  st_size :: "nat lib"

definition extract_stl_metadata :: "stl_reader \<Rightarrow> polydata \<Rightarrow> string \<Rightarrow> image_processor \<Rightarrow> image_processor \<times> effect list" where
  "extract_stl_metadata env pd filepath p =
     (case st_size env of
        Raises e \<Rightarrow> (p, [Log Log_error ''METADATA_EXTRACTION''])
      | Returns n \<Rightarrow>
          (p\<lparr>image_metadata :=
               [(''image_type'', PyStr ''STL''),
                (''filepath'', PyStr filepath),
                (''num_points'', PyInt (int (number_of_points pd))),
                (''num_cells'', PyInt (int (number_of_cells pd))),
                (''bounds'', PyFloats (bounds pd)),
                (''file_size'', PyInt (int n))]\<rparr>, []))"

definition load_stl_file :: "stl_reader \<Rightarrow> string \<Rightarrow> image_processor \<Rightarrow> image_processor \<times> effect list \<times> polydata option" where
  "load_stl_file env filepath p =
     (if \<not> file_exists env then
        (p, [Log Log_error ''STL_LOAD'',
             Emit ErrorOccurred (''STL file does not exist: '' @ filepath)], None)
      else
        let started = [Log Log_file_operation ''STL_LOAD_START''] in
        case GetOutput env of
          Raises e \<Rightarrow>
            (p, started @ [Log Log_error ''STL_LOAD'',
                 Emit ErrorOccurred (''Failed to load STL file: '' @ e)], None)
        | Returns pd \<Rightarrow>
            if number_of_points pd = 0 then
              (p, started @ [Log Log_error ''STL_LOAD'',
                   Emit ErrorOccurred (''Invalid or empty STL file: '' @ filepath)], None)
            else
              let (p', logged) = extract_stl_metadata env pd filepath (p\<lparr>current_polydata := Some pd\<rparr>)
              in (p', started @ logged @ [Log Log_file_operation ''STL_LOAD_SUCCESS'',
                        Log Log_image_processing ''STL_LOADED'',
                        Emit ImageLoaded ''STL''],
                  Some pd))"

text \<open>
  \<^verbatim>\<open>convert_sitk_to_vtk\<close>: every library call of the conversion comes before the store
  into \<^verbatim>\<open>current_vtk_image\<close>, so one answer stands for all of them.
\<close>

definition convert_sitk_to_vtk :: "unit lib \<Rightarrow> sitk_image \<Rightarrow> image_processor \<Rightarrow> image_processor \<times> effect list \<times> vtk_image_data option" where
  "convert_sitk_to_vtk conv img p =
     (case conv of
        Raises e \<Rightarrow>
          (p, [Log Log_error ''IMAGE_CONVERSION'',
               Emit ErrorOccurred (''Failed to convert SimpleITK to VTK: '' @ e)], None)
      | Returns _ \<Rightarrow>
          let vtk_image = \<lparr>vtk_dimensions = img_size img, vtk_spacing = img_spacing img,
                           vtk_origin = img_origin img,
                           vtk_scalar_range = img_scalar_range img\<rparr>
          in (p\<lparr>current_vtk_image := Some vtk_image\<rparr>,
              [Log Log_image_processing ''SITK_TO_VTK_CONVERSION''], Some vtk_image))"

fun each_series_has_files :: "dicom_reader \<Rightarrow> string list \<Rightarrow> (bool \<times> string) lib" where
  "each_series_has_files env [] = Returns (True, ''DICOM series validation successful'')"
| "each_series_has_files env (series_id # rest) =
     (case GetGDCMSeriesFileNames env series_id of
        Raises e \<Rightarrow> Raises e
      | Returns dicom_names \<Rightarrow>
          if dicom_names = [] then Returns (False, ''No files found for series '' @ series_id)
          else each_series_has_files env rest)"

definition validate_dicom_integrity :: "dicom_reader \<Rightarrow> string \<Rightarrow> (bool \<times> string) \<times> effect list" where
  "validate_dicom_integrity env directory =
     (if \<not> SIMPLEITK_AVAILABLE env then ((False, ''SimpleITK not available for validation''), [])
      else
        case GetGDCMSeriesIDs env of
          Raises e \<Rightarrow> ((False, ''DICOM validation failed: '' @ e), [Log Log_error ''DICOM_VALIDATION''])
        | Returns series_ids \<Rightarrow>
            if series_ids = [] then ((False, ''No DICOM series found''), [])
            else
              (case each_series_has_files env series_ids of
                 Raises e \<Rightarrow> ((False, ''DICOM validation failed: '' @ e), [Log Log_error ''DICOM_VALIDATION''])
               | Returns (True, msg) \<Rightarrow> ((True, msg), [Log Log_image_processing ''DICOM_VALIDATION''])
               | Returns (False, msg) \<Rightarrow> ((False, msg), [])))"

definition clear_current_data :: "image_processor \<Rightarrow> image_processor \<times> effect list" where
  "clear_current_data p =
     (p\<lparr>current_sitk_image := None, current_vtk_image := None, current_polydata := None,
        image_metadata := []\<rparr>,
      [Log Log_system_event ''DATA_CLEARED''])"

section \<open>Renderer (src/core/vtk\_renderer.py)\<close>

text \<open>
  The model is of a renderer built where VTK imports, so \<^verbatim>\<open>VTK_AVAILABLE\<close> is true and
  \<^verbatim>\<open>__init__\<close> has set every field. A VTK object held in a field is represented by what
  this repository sets on it: the props of the renderer, the input and the window and
  level of the windowing filter, the input of a mapper, the points added to a transfer
  function, the colour of the mesh actor. The camera, the volume property and the other
  material settings of the mesh actor are not represented.
\<close>

datatype display_mode = Mode_2D | Mode_3D_VOLUME | Mode_STL

datatype view_prop = Image_actor | Volume_prop | Stl_actor

datatype interactor_style = InteractorStyleImage | InteractorStyleTrackballCamera

record window_level_colors =
  wl_input :: "vtk_image_data option"
  wl_window :: real
  wl_level :: real

type_synonym rgb_point = "real \<times> real \<times> real \<times> real"

type_synonym opacity_point = "real \<times> real"

record vtk_renderer =
  render_window :: bool
  renderer :: "view_prop list option"
  interactor :: bool
  current_style :: "interactor_style option"
  displayed_vtk_image :: "vtk_image_data option"
  displayed_polydata :: "polydata option"
  current_display_mode :: "display_mode option"
  image_actor :: bool
  window_level :: "window_level_colors option"
  volume_mapper :: "vtk_image_data option option"
  volume :: bool
  color_func :: "rgb_point list option"
  opacity_func :: "opacity_point list option"
  stl_mapper :: "polydata option option"
  stl_actor :: "(real \<times> real \<times> real) option"

text \<open>
  The fields \<^verbatim>\<open>current_vtk_image\<close> and \<^verbatim>\<open>current_polydata\<close> of the renderer are named
  \<open>displayed_vtk_image\<close> and \<open>displayed_polydata\<close> here, the processor's fields having
  taken the source's names. The state after \<^verbatim>\<open>__init__\<close>:
\<close>

definition vtk_renderer_init :: vtk_renderer where
  "vtk_renderer_init =
     \<lparr>render_window = False, renderer = None, interactor = False, current_style = None,
      displayed_vtk_image = None, displayed_polydata = None, current_display_mode = None,
      image_actor = False, window_level = None, volume_mapper = None, volume = False,
      color_func = None, opacity_func = None, stl_mapper = None, stl_actor = None\<rparr>"

text \<open>
  A method body is a list of steps. A step is one library call that changes a represented
  object, followed by the plain stores up to the next such call; it yields \<open>None\<close> when the
  object it is called on is \<^verbatim>\<open>None\<close> (Python raises AttributeError). \<open>run raise_at\<close>
  executes the steps in order; \<open>raise_at = Some k\<close> says that the library raises in the
  call of step \<open>k\<close> (counted from 0), or in a call without represented effect just before
  it. An exception ends the body: the state is what the completed steps left, and the
  flag is \<open>False\<close>.
\<close>

type_synonym step = "vtk_renderer \<Rightarrow> vtk_renderer option"

fun run :: "nat option \<Rightarrow> step list \<Rightarrow> vtk_renderer \<Rightarrow> vtk_renderer \<times> bool" where
  "run raise_at [] r = (r, True)"
| "run raise_at (f # fs) r =
     (if raise_at = Some 0 then (r, False)
      else (case f r of
              None \<Rightarrow> (r, False)
            | Some r' \<Rightarrow> run (map_option (\<lambda>k. k - 1) raise_at) fs r'))"

definition RemoveAllViewProps :: step where
  "RemoveAllViewProps r =
     (case renderer r of None \<Rightarrow> None | Some _ \<Rightarrow> Some (r\<lparr>renderer := Some []\<rparr>))"

definition AddViewProp :: "view_prop \<Rightarrow> step" where
  "AddViewProp prop r =
     (case renderer r of None \<Rightarrow> None | Some props \<Rightarrow> Some (r\<lparr>renderer := Some (props @ [prop])\<rparr>))"

definition SetInteractorStyle :: step where
  "SetInteractorStyle r = (if interactor r then Some r else None)"

definition Render :: step where
  "Render r = (if render_window r then Some r else None)"

definition SetWindow :: "real \<Rightarrow> step" where
  "SetWindow window r =
     (case window_level r of
        None \<Rightarrow> None
      | Some wl \<Rightarrow> Some (r\<lparr>window_level := Some (wl\<lparr>wl_window := window\<rparr>)\<rparr>))"

definition SetLevel :: "real \<Rightarrow> step" where
  "SetLevel level r =
     (case window_level r of
        None \<Rightarrow> None
      | Some wl \<Rightarrow> Some (r\<lparr>window_level := Some (wl\<lparr>wl_level := level\<rparr>)\<rparr>))"

text \<open>
  \<^verbatim>\<open>display_2d_image\<close>. A new \<^verbatim>\<open>vtkImageMapToWindowLevelColors\<close> starts with window 255
  and level 127.5, the library's defaults. \<^verbatim>\<open>current_style\<close> is stored before
  \<^verbatim>\<open>SetInteractorStyle\<close> is called on the interactor.
\<close>

definition display_2d_steps :: "vtk_image_data \<Rightarrow> real option \<Rightarrow> real option \<Rightarrow> step list" where
  "display_2d_steps vtk_image window level =
     (let scalar_range = vtk_scalar_range vtk_image;
          window = (case window of None \<Rightarrow> snd scalar_range - fst scalar_range | Some w \<Rightarrow> w);
          level = (case level of None \<Rightarrow> (snd scalar_range + fst scalar_range) / 2 | Some l \<Rightarrow> l)
      in [\<lambda>r. map_option (\<lambda>r. r\<lparr>displayed_vtk_image := Some vtk_image,
                                  current_display_mode := Some Mode_2D\<rparr>)
                 (RemoveAllViewProps r),
          \<lambda>r. Some (r\<lparr>image_actor := True\<rparr>),
          \<lambda>r. Some (r\<lparr>window_level := Some \<lparr>wl_input = None, wl_window = 255, wl_level = 127.5\<rparr>\<rparr>),
          \<lambda>r. map_option (\<lambda>wl. r\<lparr>window_level := Some (wl\<lparr>wl_input := Some vtk_image\<rparr>)\<rparr>)
                 (window_level r),
          SetWindow window,
          SetLevel level,
          AddViewProp Image_actor,
          \<lambda>r. Some (r\<lparr>current_style := Some InteractorStyleImage\<rparr>),
          SetInteractorStyle,
          Render])"

definition display_2d_image :: "nat option \<Rightarrow> vtk_image_data \<Rightarrow> real option \<Rightarrow> real option \<Rightarrow> vtk_renderer \<Rightarrow> vtk_renderer \<times> effect list \<times> bool" where
  "display_2d_image raise_at vtk_image window level r =
     (if renderer r = None then (r, [], False)
      else (case run raise_at (display_2d_steps vtk_image window level) r of
              (r', True) \<Rightarrow>
                (r', [Log Log_image_processing ''2D_DISPLAY'', Emit RenderingComplete ''2D''], True)
            | (r', False) \<Rightarrow>
                (r', [Log Log_error ''2D_DISPLAY'',
                      Emit ErrorOccurred ''Failed to display 2D image: ''], False)))"

text \<open>\<^verbatim>\<open>_setup_transfer_functions\<close>: both functions are emptied, then the preset's points are added.\<close>

definition RemoveAllPoints_color :: step where
  "RemoveAllPoints_color r =
     (case color_func r of None \<Rightarrow> None | Some _ \<Rightarrow> Some (r\<lparr>color_func := Some []\<rparr>))"

definition RemoveAllPoints_opacity :: step where
  "RemoveAllPoints_opacity r =
     (case opacity_func r of None \<Rightarrow> None | Some _ \<Rightarrow> Some (r\<lparr>opacity_func := Some []\<rparr>))"

definition AddRGBPoint :: "real \<Rightarrow> real \<Rightarrow> real \<Rightarrow> real \<Rightarrow> step" where
  "AddRGBPoint x red green blue r =
     (case color_func r of
        None \<Rightarrow> None
      | Some pts \<Rightarrow> Some (r\<lparr>color_func := Some (pts @ [(x, red, green, blue)])\<rparr>))"

definition AddPoint :: "real \<Rightarrow> real \<Rightarrow> step" where
  "AddPoint x opacity r =
     (case opacity_func r of
        None \<Rightarrow> None
      | Some pts \<Rightarrow> Some (r\<lparr>opacity_func := Some (pts @ [(x, opacity)])\<rparr>))"

definition setup_transfer_functions :: "vtk_image_data \<Rightarrow> string \<Rightarrow> step list" where
  "setup_transfer_functions vtk_image preset =
     (let scalar_range = vtk_scalar_range vtk_image;
          min_val = fst scalar_range;
          max_val = snd scalar_range
      in [RemoveAllPoints_color, RemoveAllPoints_opacity] @
         (if preset = ''ct_bone'' then
            [AddRGBPoint min_val 0.0 0.0 0.0,
             AddRGBPoint (min_val + (max_val - min_val) * 0.2) 0.2 0.1 0.05,
             AddRGBPoint (min_val + (max_val - min_val) * 0.5) 0.8 0.7 0.6,
             AddRGBPoint max_val 1.0 1.0 1.0,
             AddPoint min_val 0.0,
             AddPoint (min_val + (max_val - min_val) * 0.1) 0.0,
             AddPoint (min_val + (max_val - min_val) * 0.4) 0.5,
             AddPoint max_val 1.0]
          else if preset = ''ct_soft_tissue'' then
            [AddRGBPoint min_val 0.0 0.0 0.0,
             AddRGBPoint (min_val + (max_val - min_val) * 0.3) 0.8 0.4 0.2,
             AddRGBPoint (min_val + (max_val - min_val) * 0.7) 1.0 0.8 0.6,
             AddRGBPoint max_val 1.0 1.0 1.0,
             AddPoint min_val 0.0,
             AddPoint (min_val + (max_val - min_val) * 0.2) 0.1,
             AddPoint (min_val + (max_val - min_val) * 0.5) 0.4,
             AddPoint max_val 0.8]
          else
            [AddRGBPoint min_val 0.0 0.0 0.0,
             AddRGBPoint (min_val + (max_val - min_val) * 0.3) 0.5 0.2 0.1,
             AddRGBPoint (min_val + (max_val - min_val) * 0.6) 1.0 0.7 0.6,
             AddRGBPoint max_val 1.0 1.0 1.0,
             AddPoint min_val 0.0,
             AddPoint (min_val + (max_val - min_val) * 0.1) 0.0,
             AddPoint (min_val + (max_val - min_val) * 0.3) 0.3,
             AddPoint max_val 1.0]))"

definition display_3d_steps :: "vtk_image_data \<Rightarrow> string \<Rightarrow> step list" where
  "display_3d_steps vtk_image preset =
     [\<lambda>r. map_option (\<lambda>r. r\<lparr>displayed_vtk_image := Some vtk_image,
                                current_display_mode := Some Mode_3D_VOLUME\<rparr>)
               (RemoveAllViewProps r),
      \<lambda>r. Some (r\<lparr>volume_mapper := Some None\<rparr>),
      \<lambda>r. map_option (\<lambda>_. r\<lparr>volume_mapper := Some (Some vtk_image)\<rparr>) (volume_mapper r),
      \<lambda>r. Some (r\<lparr>color_func := Some []\<rparr>),
      \<lambda>r. Some (r\<lparr>opacity_func := Some []\<rparr>)]
     @ setup_transfer_functions vtk_image preset @
     [\<lambda>r. Some (r\<lparr>volume := True\<rparr>),
      AddViewProp Volume_prop,
      \<lambda>r. Some (r\<lparr>current_style := Some InteractorStyleTrackballCamera\<rparr>),
      SetInteractorStyle,
      Render]"

definition display_3d_volume :: "nat option \<Rightarrow> vtk_image_data \<Rightarrow> string \<Rightarrow> vtk_renderer \<Rightarrow> vtk_renderer \<times> effect list \<times> bool" where
  "display_3d_volume raise_at vtk_image preset r =
     (if renderer r = None then (r, [], False)
      else (case run raise_at (display_3d_steps vtk_image preset) r of
              (r', True) \<Rightarrow>
                (r', [Log Log_image_processing ''3D_VOLUME_DISPLAY'',
                      Emit RenderingComplete ''3D_VOLUME''], True)
            | (r', False) \<Rightarrow>
                (r', [Log Log_error ''3D_VOLUME_DISPLAY'',
                      Emit ErrorOccurred ''Failed to display 3D volume: ''], False)))"

text \<open>\<^verbatim>\<open>display_stl_model\<close>; a new \<^verbatim>\<open>vtkActor\<close> is white.\<close>

definition display_stl_steps :: "polydata \<Rightarrow> real \<times> real \<times> real \<Rightarrow> step list" where
  "display_stl_steps pd color =
     [\<lambda>r. map_option (\<lambda>r. r\<lparr>displayed_polydata := Some pd,
                                current_display_mode := Some Mode_STL\<rparr>)
               (RemoveAllViewProps r),
      \<lambda>r. Some (r\<lparr>stl_mapper := Some None\<rparr>),
      \<lambda>r. map_option (\<lambda>_. r\<lparr>stl_mapper := Some (Some pd)\<rparr>) (stl_mapper r),
      \<lambda>r. Some (r\<lparr>stl_actor := Some (1, 1, 1)\<rparr>),
      \<lambda>r. map_option (\<lambda>_. r\<lparr>stl_actor := Some color\<rparr>) (stl_actor r),
      AddViewProp Stl_actor,
      \<lambda>r. Some (r\<lparr>current_style := Some InteractorStyleTrackballCamera\<rparr>),
      SetInteractorStyle,
      Render]"

definition display_stl_model :: "nat option \<Rightarrow> polydata \<Rightarrow> real \<times> real \<times> real \<Rightarrow> vtk_renderer \<Rightarrow> vtk_renderer \<times> effect list \<times> bool" where
  "display_stl_model raise_at pd color r =
     (if renderer r = None then (r, [], False)
      else (case run raise_at (display_stl_steps pd color) r of
              (r', True) \<Rightarrow>
                (r', [Log Log_image_processing ''STL_DISPLAY'', Emit RenderingComplete ''STL''], True)
            | (r', False) \<Rightarrow>
                (r', [Log Log_error ''STL_DISPLAY'',
                      Emit ErrorOccurred ''Failed to display STL model: ''], False)))"

definition update_window_level :: "nat option \<Rightarrow> real \<Rightarrow> real \<Rightarrow> vtk_renderer \<Rightarrow> vtk_renderer \<times> effect list \<times> bool" where
  "update_window_level raise_at window level r =
     (if window_level r = None \<or> current_display_mode r \<noteq> Some Mode_2D then (r, [], False)
      else (case run raise_at [SetWindow window, SetLevel level, Render] r of
              (r', True) \<Rightarrow> (r', [Log Log_image_processing ''WINDOW_LEVEL_UPDATE''], True)
            | (r', False) \<Rightarrow> (r', [Log Log_error ''WINDOW_LEVEL_UPDATE''], False)))"

definition update_3d_transfer_function :: "nat option \<Rightarrow> string \<Rightarrow> vtk_renderer \<Rightarrow> vtk_renderer \<times> effect list \<times> bool" where
  "update_3d_transfer_function raise_at preset r =
     (case displayed_vtk_image r of
        None \<Rightarrow> (r, [], False)
      | Some vtk_image \<Rightarrow>
          if current_display_mode r \<noteq> Some Mode_3D_VOLUME then (r, [], False)
          else (case run raise_at (setup_transfer_functions vtk_image preset @ [Render]) r of
                  (r', True) \<Rightarrow> (r', [Log Log_image_processing ''TRANSFER_FUNCTION_UPDATE''], True)
                | (r', False) \<Rightarrow> (r', [Log Log_error ''TRANSFER_FUNCTION_UPDATE''], False)))"

text \<open>
  \<^verbatim>\<open>reset_camera\<close> and \<^verbatim>\<open>clear_display\<close> have no exception handler of their own: the flag
  \<open>False\<close> says that an exception leaves the method.
\<close>

definition reset_camera :: "nat option \<Rightarrow> vtk_renderer \<Rightarrow> vtk_renderer \<times> bool" where
  "reset_camera raise_at r =
     (if renderer r = None then (r, True) else run raise_at [Render] r)"

definition clear_display :: "nat option \<Rightarrow> vtk_renderer \<Rightarrow> vtk_renderer \<times> effect list \<times> bool" where
  "clear_display raise_at r =
     (case (if renderer r = None then (r, True) else run raise_at [RemoveAllViewProps, Render] r) of
        (r', False) \<Rightarrow> (r', [], False)
      | (r', True) \<Rightarrow>
          (r'\<lparr>displayed_vtk_image := None, displayed_polydata := None,
              current_display_mode := None\<rparr>,
           [Log Log_system_event ''DISPLAY_CLEARED''], True))"

definition initialize_render_window :: "nat option \<Rightarrow> vtk_renderer \<Rightarrow> vtk_renderer \<times> effect list \<times> bool" where
  "initialize_render_window raise_at r =
     (case run raise_at
             [\<lambda>r. Some (r\<lparr>render_window := True\<rparr>),
              \<lambda>r. Some (r\<lparr>renderer := Some []\<rparr>),
              \<lambda>r. Some (r\<lparr>interactor := True\<rparr>),
              \<lambda>r. Some (r\<lparr>current_style := Some InteractorStyleImage\<rparr>),
              SetInteractorStyle] r of
        (r', True) \<Rightarrow> (r', [Log Log_system_event ''VTK_INIT_SUCCESS''], True)
      | (r', False) \<Rightarrow>
          (r', [Log Log_error ''VTK_INIT'',
                Emit ErrorOccurred ''Failed to initialize VTK render window: ''], False))"

section \<open>Application controller (src/main\_application.py)\<close>

text \<open>
  The controller owns one processor and one renderer. Its slots take the local path that
  \<^verbatim>\<open>QUrl(...).toLocalFile()\<close> has produced (empty for a URL without one). The logger is
  taken to be present and its calls to return; under that reading no exception reaches
  the handlers that wrap the slots of the two load operations and of the view switches.
\<close>

record app =
  image_processor :: image_processor
  vtk_renderer :: vtk_renderer
  current_image_type :: "string option"
  current_file_path :: "string option"
  is_3d_view :: bool

definition app_init :: app where
  "app_init =
     \<lparr>image_processor = image_processor_init, vtk_renderer = vtk_renderer_init,
      current_image_type = None, current_file_path = None, is_3d_view = False\<rparr>"

definition initialize_vtk_widget :: "nat option \<Rightarrow> app \<Rightarrow> app \<times> effect list" where
  "initialize_vtk_widget raise_at a =
     (let (r, logged, ok) = initialize_render_window raise_at (vtk_renderer a)
      in (a\<lparr>vtk_renderer := r\<rparr>, logged))"

definition loadDicomSeries :: "dicom_reader \<Rightarrow> unit lib \<Rightarrow> nat option \<Rightarrow> string \<Rightarrow> app \<Rightarrow> app \<times> effect list" where
  "loadDicomSeries env conv raise_at directory a =
     (if directory = [] then (a, [Emit ErrorOccurred ''Invalid directory path''])
      else
        let started = [Log Log_user_action ''LOAD_DICOM_SERIES'',
                       Emit StatusUpdate ''Loading DICOM series...''];
            ((is_valid, error_msg), validated) = validate_dicom_integrity env directory
        in if \<not> is_valid then
             (a, started @ validated @ [Emit ErrorOccurred (''DICOM validation failed: '' @ error_msg)])
           else
             let (p1, loaded, sitk_image) = load_dicom_series env directory (image_processor a)
             in (case sitk_image of
                   None \<Rightarrow>
                     (a\<lparr>image_processor := p1\<rparr>,
                      started @ validated @ loaded @ [Emit ErrorOccurred ''Failed to load DICOM series''])
                 | Some sitk_image \<Rightarrow>
                     let (p2, converted, vtk_image) = convert_sitk_to_vtk conv sitk_image p1
                     in (case vtk_image of
                           None \<Rightarrow>
                             (a\<lparr>image_processor := p2\<rparr>,
                              started @ validated @ loaded @ converted @
                              [Emit ErrorOccurred ''Failed to convert DICOM to display format''])
                         | Some vtk_image \<Rightarrow>
                             let (r, displayed, success) =
                                   display_2d_image raise_at vtk_image None None (vtk_renderer a)
                             in if success then
                                  (a\<lparr>image_processor := p2, vtk_renderer := r,
                                     current_image_type := Some ''DICOM'',
                                     current_file_path := Some directory,
                                     is_3d_view := False\<rparr>,
                                   started @ validated @ loaded @ converted @ displayed @
                                   [Emit StatusUpdate ''DICOM series loaded successfully''])
                                else
                                  (a\<lparr>image_processor := p2, vtk_renderer := r\<rparr>,
                                   started @ validated @ loaded @ converted @ displayed @
                                   [Emit ErrorOccurred ''Failed to display DICOM image'']))))"

definition loadStlFile :: "stl_reader \<Rightarrow> nat option \<Rightarrow> string \<Rightarrow> app \<Rightarrow> app \<times> effect list" where
  "loadStlFile env raise_at filepath a =
     (if filepath = [] then (a, [Emit ErrorOccurred ''Invalid file path''])
      else
        let started = [Log Log_user_action ''LOAD_STL_FILE'', Emit StatusUpdate ''Loading STL file...''];
            (p1, loaded, pd) = load_stl_file env filepath (image_processor a)
        in (case pd of
              None \<Rightarrow>
                (a\<lparr>image_processor := p1\<rparr>,
                 started @ loaded @ [Emit ErrorOccurred ''Failed to load STL file''])
            | Some pd \<Rightarrow>
                let (r, displayed, success) =
                      display_stl_model raise_at pd (0.8, 0.8, 0.9) (vtk_renderer a)
                in if success then
                     (a\<lparr>image_processor := p1, vtk_renderer := r,
                        current_image_type := Some ''STL'',
                        current_file_path := Some filepath,
                        is_3d_view := True\<rparr>,
                      started @ loaded @ displayed @ [Emit StatusUpdate ''STL file loaded successfully''])
                   else
                     (a\<lparr>image_processor := p1, vtk_renderer := r\<rparr>,
                      started @ loaded @ displayed @ [Emit ErrorOccurred ''Failed to display STL model''])))"

definition switchTo2DView :: "nat option \<Rightarrow> app \<Rightarrow> app \<times> effect list" where
  "switchTo2DView raise_at a =
     (if current_image_type a \<noteq> Some ''DICOM'' then
        (a, [Emit ErrorOccurred ''2D view only available for DICOM images''])
      else
        let started = [Log Log_user_action ''SWITCH_2D_VIEW'']
        in (case current_vtk_image (image_processor a) of
              None \<Rightarrow> (a, started @ [Emit ErrorOccurred ''No image data available for 2D view''])
            | Some vtk_image \<Rightarrow>
                let (r, displayed, success) =
                      display_2d_image raise_at vtk_image None None (vtk_renderer a)
                in if success then
                     (a\<lparr>vtk_renderer := r, is_3d_view := False\<rparr>,
                      started @ displayed @ [Emit StatusUpdate ''Switched to 2D view''])
                   else
                     (a\<lparr>vtk_renderer := r\<rparr>,
                      started @ displayed @ [Emit ErrorOccurred ''Failed to switch to 2D view''])))"

definition switchTo3DView :: "nat option \<Rightarrow> app \<Rightarrow> app \<times> effect list" where
  "switchTo3DView raise_at a =
     (if current_image_type a \<noteq> Some ''DICOM'' then
        (a, [Emit ErrorOccurred ''3D view only available for DICOM images''])
      else
        let started = [Log Log_user_action ''SWITCH_3D_VIEW'']
        in (case current_vtk_image (image_processor a) of
              None \<Rightarrow> (a, started @ [Emit ErrorOccurred ''No image data available for 3D view''])
            | Some vtk_image \<Rightarrow>
                let (r, displayed, success) =
                      display_3d_volume raise_at vtk_image ''default'' (vtk_renderer a)
                in if success then
                     (a\<lparr>vtk_renderer := r, is_3d_view := True\<rparr>,
                      started @ displayed @ [Emit StatusUpdate ''Switched to 3D view''])
                   else
                     (a\<lparr>vtk_renderer := r\<rparr>,
                      started @ displayed @ [Emit ErrorOccurred ''Failed to switch to 3D view''])))"

definition updateWindowLevel :: "nat option \<Rightarrow> real \<Rightarrow> real \<Rightarrow> app \<Rightarrow> app \<times> effect list" where
  "updateWindowLevel raise_at window level a =
     (if current_image_type a \<noteq> Some ''DICOM'' \<or> is_3d_view a then (a, [])
      else
        let (r, updated, success) = update_window_level raise_at window level (vtk_renderer a)
        in (a\<lparr>vtk_renderer := r\<rparr>,
            [Log Log_user_action ''WINDOW_LEVEL_ADJUST''] @ updated @
            (if \<not> success then [Emit ErrorOccurred ''Failed to update window/level''] else [])))"

definition update3DPreset :: "nat option \<Rightarrow> string \<Rightarrow> app \<Rightarrow> app \<times> effect list" where
  "update3DPreset raise_at preset a =
     (if current_image_type a \<noteq> Some ''DICOM'' \<or> \<not> is_3d_view a then (a, [])
      else
        let (r, updated, success) = update_3d_transfer_function raise_at preset (vtk_renderer a)
        in (a\<lparr>vtk_renderer := r\<rparr>,
            [Log Log_user_action ''3D_PRESET_CHANGE''] @ updated @
            (if success then [Emit StatusUpdate (''Applied 3D preset: '' @ preset)]
             else [Emit ErrorOccurred ''Failed to update 3D preset''])))"

definition resetCamera :: "nat option \<Rightarrow> app \<Rightarrow> app \<times> effect list" where
  "resetCamera raise_at a =
     (let (r, returned) = reset_camera raise_at (vtk_renderer a)
      in (a\<lparr>vtk_renderer := r\<rparr>,
          [Log Log_user_action ''RESET_CAMERA''] @
          (if returned then [Emit StatusUpdate ''Camera view reset'']
           else [Log Log_error ''CAMERA_RESET'', Emit ErrorOccurred ''Error resetting camera: ''])))"

definition clearDisplay :: "nat option \<Rightarrow> app \<Rightarrow> app \<times> effect list" where
  "clearDisplay raise_at a =
     (let started = [Log Log_user_action ''CLEAR_DISPLAY''];
          (r, cleared, returned) = clear_display raise_at (vtk_renderer a)
      in if \<not> returned then
           (a\<lparr>vtk_renderer := r\<rparr>,
            started @ cleared @
            [Log Log_error ''CLEAR_DISPLAY'', Emit ErrorOccurred ''Error clearing display: ''])
         else
           let (p, data_cleared) = clear_current_data (image_processor a)
           in (a\<lparr>image_processor := p, vtk_renderer := r, current_image_type := None,
                 current_file_path := None, is_3d_view := False\<rparr>,
               started @ cleared @ data_cleared @ [Emit StatusUpdate ''Display cleared'']))"

text \<open>
  The operations of the user interface, each with the answers of the outside world during
  the call, and the state after a sequence of them.
\<close>

datatype operation =
  InitializeVtkWidget "nat option"
| LoadDicomSeries dicom_reader "unit lib" "nat option" string
| LoadStlFile stl_reader "nat option" string
| SwitchTo2DView "nat option"
| SwitchTo3DView "nat option"
| UpdateWindowLevel "nat option" real real
| Update3DPreset "nat option" string
| ResetCamera "nat option"
| ClearDisplay "nat option"

fun perform :: "operation \<Rightarrow> app \<Rightarrow> app \<times> effect list" where
  "perform (InitializeVtkWidget raise_at) a = initialize_vtk_widget raise_at a"
| "perform (LoadDicomSeries env conv raise_at directory) a = loadDicomSeries env conv raise_at directory a"
| "perform (LoadStlFile env raise_at filepath) a = loadStlFile env raise_at filepath a"
| "perform (SwitchTo2DView raise_at) a = switchTo2DView raise_at a"
| "perform (SwitchTo3DView raise_at) a = switchTo3DView raise_at a"
| "perform (UpdateWindowLevel raise_at window level) a = updateWindowLevel raise_at window level a"
| "perform (Update3DPreset raise_at preset) a = update3DPreset raise_at preset a"
| "perform (ResetCamera raise_at) a = resetCamera raise_at a"
| "perform (ClearDisplay raise_at) a = clearDisplay raise_at a"

fun perform_all :: "operation list \<Rightarrow> app \<Rightarrow> app" where
  "perform_all [] a = a"
| "perform_all (operation # rest) a = perform_all rest (fst (perform operation a))"

section \<open>The metadata dictionary as an object (ImageProcessor.get\_metadata)\<close>

text \<open>
  For questions of aliasing the dictionaries live in a store: a list of dictionaries, the
  address of a dictionary being its index. A field or variable holds an address of the
  store. \<^verbatim>\<open>dict.copy()\<close> allocates a new dictionary with the same items; the values of
  the metadata dictionary are strings, numbers and tuples of numbers, which cannot be
  changed in place, so a dictionary changes only through the operations below.
\<close>

type_synonym store = "dict list"

definition dict_copy :: "nat \<Rightarrow> store \<Rightarrow> nat \<times> store" where
  "dict_copy address h = (length h, h @ [h ! address])"

text \<open>\<^verbatim>\<open>return self.image_metadata.copy()\<close>, with the address held in \<^verbatim>\<open>self.image_metadata\<close>.\<close>

definition get_metadata :: "nat \<Rightarrow> store \<Rightarrow> nat \<times> store" where
  "get_metadata image_metadata_ref h = dict_copy image_metadata_ref h"

text \<open>
  What a caller can do to a dictionary it holds: store an item, delete a key (a missing
  key raises KeyError and changes nothing), empty it, or merge another dictionary's items
  into it.
\<close>

datatype mutation = SetItem string pyval | DelItem string | Clear | Update dict

fun mutate :: "mutation \<Rightarrow> dict \<Rightarrow> dict" where
  "mutate (SetItem k v) d = dict_setitem d k v"
| "mutate (DelItem k) d = filter (\<lambda>(k', v). k' \<noteq> k) d"
| "mutate Clear d = []"
| "mutate (Update items) d = foldl (\<lambda>d (k, v). dict_setitem d k v) d items"

definition mutate_at :: "nat \<Rightarrow> mutation \<Rightarrow> store \<Rightarrow> store" where
  "mutate_at address m h = h[address := mutate m (h ! address)]"

text \<open>A caller changing the dictionary at one address several times in a row.\<close>

fun mutate_all :: "nat \<Rightarrow> mutation list \<Rightarrow> store \<Rightarrow> store" where
  "mutate_all address [] h = h"
| "mutate_all address (m # ms) h = mutate_all address ms (mutate_at address m h)"

section \<open>Example inputs\<close>

text \<open>
  Concrete inputs on which the results below are evaluated: a CT series of two files in
  \<^verbatim>\<open>/data/ct\<close> with intensities from -1000 to 2000, a mesh of three points in
  \<^verbatim>\<open>/data/part.stl\<close>, and the controller after a successful \<^verbatim>\<open>initialize_vtk_widget\<close>.
\<close>

definition ct_image :: sitk_image where
  "ct_image =
     \<lparr>img_size = [512, 512, 2], img_spacing = [1, 1, 2], img_origin = [0, 0, 0],
      img_direction = [1, 0, 0, 0, 1, 0, 0, 0, 1], img_pixel_type = ''16-bit signed integer'',
      img_components = 1, img_meta_data = [], img_scalar_range = (-1000, 2000)\<rparr>"

definition ct_file_names :: "string \<Rightarrow> string list lib" where
  "ct_file_names series_id = Returns [''/data/ct/1.dcm'', ''/data/ct/2.dcm'']"

definition ct_reader :: dicom_reader where
  "ct_reader =
     \<lparr>SIMPLEITK_AVAILABLE = True, directory_exists = True,
      GetGDCMSeriesIDs = Returns [''1.2.840.1''], GetGDCMSeriesFileNames = ct_file_names,
      Execute = Returns ct_image\<rparr>"

definition ct_volume :: vtk_image_data where
  "ct_volume =
     \<lparr>vtk_dimensions = [512, 512, 2], vtk_spacing = [1, 1, 2], vtk_origin = [0, 0, 0],
      vtk_scalar_range = (-1000, 2000)\<rparr>"

definition part_mesh :: polydata where
  "part_mesh = \<lparr>number_of_points = 3, number_of_cells = 1, bounds = [0, 1, 0, 1, 0, 0]\<rparr>"

definition part_reader :: stl_reader where
  "part_reader = \<lparr>file_exists = True, GetOutput = Returns part_mesh, st_size = Returns 134\<rparr>"

definition ready_renderer :: vtk_renderer where
  "ready_renderer = fst (initialize_render_window None vtk_renderer_init)"

definition ready_app :: app where
  "ready_app = fst (initialize_vtk_widget None app_init)"

text \<open>
  The controller after loading the CT series (shown in 2D), and after loading the mesh.
\<close>

definition ct_app :: app where
  "ct_app = fst (loadDicomSeries ct_reader (Returns ()) None ''/data/ct'' ready_app)"

definition mesh_app :: app where
  "mesh_app = fst (loadStlFile part_reader None ''/data/part.stl'' ready_app)"


section \<open>Statement vocabulary\<close>

text \<open>\<^verbatim>\<open>logging.getLevelName\<close> on the four levels.\<close>

fun getLevelName :: "level \<Rightarrow> string" where
  "getLevelName INFO = ''INFO''"
| "getLevelName WARNING = ''WARNING''"
| "getLevelName ERROR = ''ERROR''"
| "getLevelName CRITICAL = ''CRITICAL''"

text \<open>
  The points that \<^verbatim>\<open>_setup_transfer_functions\<close> adds for a preset name and a scalar
  range, colour points first, as one value: the table in which the results on the
  transfer functions are stated.
\<close>

definition preset_points :: "string \<Rightarrow> real \<times> real \<Rightarrow> rgb_point list \<times> opacity_point list" where
  "preset_points preset scalar_range =
     (let min_val = fst scalar_range; max_val = snd scalar_range in
      if preset = ''ct_bone'' then
        ([(min_val, 0.0, 0.0, 0.0),
          (min_val + (max_val - min_val) * 0.2, 0.2, 0.1, 0.05),
          (min_val + (max_val - min_val) * 0.5, 0.8, 0.7, 0.6),
          (max_val, 1.0, 1.0, 1.0)],
         [(min_val, 0.0),
          (min_val + (max_val - min_val) * 0.1, 0.0),
          (min_val + (max_val - min_val) * 0.4, 0.5),
          (max_val, 1.0)])
      else if preset = ''ct_soft_tissue'' then
        ([(min_val, 0.0, 0.0, 0.0),
          (min_val + (max_val - min_val) * 0.3, 0.8, 0.4, 0.2),
          (min_val + (max_val - min_val) * 0.7, 1.0, 0.8, 0.6),
          (max_val, 1.0, 1.0, 1.0)],
         [(min_val, 0.0),
          (min_val + (max_val - min_val) * 0.2, 0.1),
          (min_val + (max_val - min_val) * 0.5, 0.4),
          (max_val, 0.8)])
      else
        ([(min_val, 0.0, 0.0, 0.0),
          (min_val + (max_val - min_val) * 0.3, 0.5, 0.2, 0.1),
          (min_val + (max_val - min_val) * 0.6, 1.0, 0.7, 0.6),
          (max_val, 1.0, 1.0, 1.0)],
         [(min_val, 0.0),
          (min_val + (max_val - min_val) * 0.1, 0.0),
          (min_val + (max_val - min_val) * 0.3, 0.3),
          (max_val, 1.0)]))"

text \<open>
  The display mode matches the resident data: the two views of a volume need a resident
  volume in the processor, the mesh view a resident mesh.
\<close>

definition mode_matches :: "app \<Rightarrow> bool" where
  "mode_matches a =
     (case current_display_mode (vtk_renderer a) of
        None \<Rightarrow> True
      | Some Mode_2D \<Rightarrow> current_sitk_image (image_processor a) \<noteq> None
      | Some Mode_3D_VOLUME \<Rightarrow> current_sitk_image (image_processor a) \<noteq> None
      | Some Mode_STL \<Rightarrow> current_polydata (image_processor a) \<noteq> None)"

text \<open>
  Two facts that hold along with it in every state the operations reach: a converted
  volume is only resident together with the volume it was converted from, and a renderer
  is only present together with its render window.
\<close>

definition window_ready :: "vtk_renderer \<Rightarrow> bool" where
  "window_ready r = (renderer r \<noteq> None \<longrightarrow> render_window r)"

definition consistent :: "app \<Rightarrow> bool" where
  "consistent a =
     (mode_matches a
      \<and> (current_vtk_image (image_processor a) \<noteq> None \<longrightarrow>
           current_sitk_image (image_processor a) \<noteq> None)
      \<and> window_ready (vtk_renderer a))"

text \<open>The mode is one of two given ones, and the render window is there if the renderer is.\<close>

definition stays :: "display_mode option \<Rightarrow> display_mode option \<Rightarrow> vtk_renderer \<Rightarrow> bool" where
  "stays m m' r = ((current_display_mode r = m \<or> current_display_mode r = m') \<and> window_ready r)"

section \<open>Results: audit logger\<close>

lemma wrappers_never_return:
  "log_user_action action details s = None"
  "log_file_operation operation filepath result s = None"
  "log_image_processing operation image_info result s = None"
  "log_system_event event details s = None"
  "log_error error_type error_message stack_trace s = None"
  by (simp_all add: log_user_action_def log_file_operation_def log_image_processing_def
      log_system_event_def log_error_def with_lock_def log_event_def Let_def
      audit_logger_def error_logger_def)

lemma log_event_returns: "\<not> lock_held s \<Longrightarrow> log_event event_type message severity s \<noteq> None"
  by (simp add: log_event_def with_lock_def Let_def)

text \<open>
  C1. The claim is that every logging operation returns and appends its record. On a
  freshly set up logger only \<^verbatim>\<open>log_event\<close> does: each of the five other operations takes
  the lock and, still holding it, calls \<^verbatim>\<open>log_event\<close>, which waits for the same lock.
  The calls below, taken from the callers in this repository, do not return.
\<close>

theorem logging_wrappers_block:
  "log_user_action ''APPLICATION_LAUNCH'' ''User launched the application'' logger_setup = None
   \<and> log_file_operation ''DICOM_LOAD_START'' ''/data/ct'' ''SUCCESS'' logger_setup = None
   \<and> log_image_processing ''2D_DISPLAY'' ''2D display'' ''SUCCESS'' logger_setup = None
   \<and> log_system_event ''IMAGE_PROCESSOR_INIT'' ''Image processor initialized'' logger_setup = None
   \<and> log_error ''DICOM_LOAD'' ''Directory does not exist: /data/ct'' None logger_setup = None
   \<and> log_event ''SYSTEM'' ''Medical Logger initialized'' ''INFO'' logger_setup \<noteq> None"
  by (simp add: log_user_action_def log_file_operation_def log_image_processing_def
      log_system_event_def log_error_def with_lock_def log_event_def logger_setup_def Let_def
      audit_logger_def error_logger_def)

text \<open>
  C2, as stated: every \<^verbatim>\<open>log_event\<close> also writes the audit stream. The first call the
  logger makes on itself returns with the audit stream as it was.
\<close>

theorem log_event_audit_counterexample:
  "map_option audit_stream (log_event ''SYSTEM'' ''Medical Logger initialized'' ''INFO'' logger_setup)
     = Some (audit_stream logger_setup)"
  by (simp add: log_event_def with_lock_def logger_setup_def upper_def upper_char_def
      event_logger_def)

text \<open>
  C2, amended. When the lock is free and the severity, upper-cased, names one of the four
  levels, \<^verbatim>\<open>log_event\<close> returns, has appended the line \<open>event_type | message\<close> at that
  level to the event stream, has appended the same line to the error stream exactly when
  the level is ERROR or CRITICAL, has left the audit stream as it was, and has released
  the lock.
\<close>

theorem log_event_streams:
  assumes "\<not> lock_held s" and "upper severity = getLevelName lvl"
  shows "map_option event_stream (log_event event_type message severity s)
           = Some (event_stream s @ [(lvl, event_type @ '' | '' @ message)])
       \<and> map_option error_stream (log_event event_type message severity s)
           = Some (if lvl = ERROR \<or> lvl = CRITICAL
                   then error_stream s @ [(lvl, event_type @ '' | '' @ message)]
                   else error_stream s)
       \<and> map_option audit_stream (log_event event_type message severity s)
           = Some (audit_stream s)
       \<and> map_option lock_held (log_event event_type message severity s) = Some False"
  using assms
  by (cases lvl)
     (simp_all add: log_event_def with_lock_def Let_def event_logger_def error_logger_def emit_def)

theorem log_event_streams_witness:
  "\<not> lock_held logger_setup \<and> upper ''error'' = getLevelName ERROR
   \<and> map_option event_stream (log_event ''FILE_OPERATION'' ''FILE_OP | LOAD'' ''error'' logger_setup)
       = Some [(ERROR, ''FILE_OPERATION | FILE_OP | LOAD'')]
   \<and> map_option error_stream (log_event ''FILE_OPERATION'' ''FILE_OP | LOAD'' ''error'' logger_setup)
       = Some [(ERROR, ''FILE_OPERATION | FILE_OP | LOAD'')]
   \<and> map_option audit_stream (log_event ''FILE_OPERATION'' ''FILE_OP | LOAD'' ''error'' logger_setup)
       = Some []"
proof -
  have h1: "\<not> lock_held logger_setup" by (simp add: logger_setup_def)
  have h2: "upper ''error'' = getLevelName ERROR" by code_simp
  show ?thesis
    using h1 h2 log_event_streams [OF h1 h2, of "''FILE_OPERATION''" "''FILE_OP | LOAD''"]
    by (simp add: logger_setup_def)
qed

section \<open>Results: running a method body\<close>

text \<open>A body that completed met no exception, so it computes what it computes without one.\<close>

lemma run_completed_no_raise:
  "run raise_at fs r = (r', True) \<Longrightarrow> run None fs r = (r', True)"
proof (induction fs arbitrary: raise_at r)
  case Nil
  then show ?case by simp
next
  case (Cons f fs)
  from Cons.prems have nz: "raise_at \<noteq> Some 0" by (auto split: if_splits)
  from Cons.prems nz obtain r1 where r1: "f r = Some r1"
    by (cases "f r") auto
  from Cons.prems nz r1 have "run (map_option (\<lambda>k. k - 1) raise_at) fs r1 = (r', True)" by simp
  then have "run None fs r1 = (r', True)" by (rule Cons.IH)
  then show ?case using r1 by simp
qed

text \<open>What every step keeps, the body keeps, wherever an exception ends it.\<close>

lemma run_invariant:
  "Q r \<Longrightarrow> \<forall>f\<in>set fs. \<forall>x y. Q x \<longrightarrow> f x = Some y \<longrightarrow> Q y \<Longrightarrow> Q (fst (run raise_at fs r))"
proof (induction fs arbitrary: raise_at r)
  case Nil
  then show ?case by simp
next
  case (Cons f fs)
  have step: "Q y" if "g \<in> set (f # fs)" "Q x" "g x = Some y" for g x y
    using Cons.prems(2) that by blast
  show ?case
  proof (cases "raise_at = Some 0")
    case True
    then show ?thesis using Cons.prems(1) by simp
  next
    case no_raise: False
    show ?thesis
    proof (cases "f r")
      case None
      then show ?thesis using Cons.prems(1) by simp
    next
      case (Some r1)
      have "f \<in> set (f # fs)" by simp
      then have "Q r1" using Cons.prems(1) Some by (rule step)
      moreover have "\<forall>g\<in>set fs. \<forall>x y. Q x \<longrightarrow> g x = Some y \<longrightarrow> Q y"
      proof (intro ballI allI impI)
        fix g x y
        assume "g \<in> set fs" and qx: "Q x" and gx: "g x = Some y"
        then have "g \<in> set (f # fs)" by simp
        then show "Q y" using qx gx by (rule step)
      qed
      ultimately have "Q (fst (run (map_option (\<lambda>k. k - 1) raise_at) fs r1))"
        by (rule Cons.IH)
      then show ?thesis using no_raise Some by simp
    qed
  qed
qed

lemmas step_defs = RemoveAllViewProps_def SetWindow_def SetLevel_def
  AddViewProp_def SetInteractorStyle_def Render_def RemoveAllPoints_color_def
  RemoveAllPoints_opacity_def AddRGBPoint_def AddPoint_def

section \<open>Results: two-dimensional display\<close>

lemma ready_renderer_eq:
  "ready_renderer = vtk_renderer_init\<lparr>render_window := True, renderer := Some [], interactor := True,
      current_style := Some InteractorStyleImage\<rparr>"
  by (simp add: ready_renderer_def initialize_render_window_def vtk_renderer_init_def step_defs)

lemma display_2d_completed:
  assumes "renderer r = Some props" "interactor r" "render_window r"
  shows "run None (display_2d_steps vtk_image window level) r =
     (r\<lparr>renderer := Some [Image_actor], current_style := Some InteractorStyleImage,
        displayed_vtk_image := Some vtk_image, current_display_mode := Some Mode_2D,
        image_actor := True,
        window_level := Some \<lparr>wl_input = Some vtk_image,
        wl_window = (case window of None \<Rightarrow> snd (vtk_scalar_range vtk_image) - fst (vtk_scalar_range vtk_image) | Some w \<Rightarrow> w),
        wl_level = (case level of None \<Rightarrow> (snd (vtk_scalar_range vtk_image) + fst (vtk_scalar_range vtk_image)) / 2 | Some l \<Rightarrow> l)\<rparr>\<rparr>, True)"
  using assms
  by (simp add: display_2d_steps_def Let_def step_defs)

lemma display_2d_not_completed:
  assumes "\<not> (renderer r \<noteq> None \<and> interactor r \<and> render_window r)"
  shows "snd (run None (display_2d_steps vtk_image window level) r) = False"
  using assms
  by (cases "renderer r"; cases "interactor r")
     (simp_all add: display_2d_steps_def Let_def step_defs)

text \<open>
  C5. Whenever \<^verbatim>\<open>display_2d_image\<close> succeeds, the windowing filter it has installed reads
  the given volume, and its window and level are: the supplied value where one was
  supplied, and otherwise \<open>max - min\<close> for the window and \<open>(max + min) / 2\<close> for the
  level, over the scalar range of the volume.
\<close>

theorem display_2d_image_window_level:
  assumes "snd (snd (display_2d_image raise_at vtk_image window level r))"
  shows "window_level (fst (display_2d_image raise_at vtk_image window level r)) =
     Some \<lparr>wl_input = Some vtk_image,
        wl_window = (case window of None \<Rightarrow> snd (vtk_scalar_range vtk_image) - fst (vtk_scalar_range vtk_image) | Some w \<Rightarrow> w),
        wl_level = (case level of None \<Rightarrow> (snd (vtk_scalar_range vtk_image) + fst (vtk_scalar_range vtk_image)) / 2 | Some l \<Rightarrow> l)\<rparr>"
proof -
  obtain r' ok where run: "run raise_at (display_2d_steps vtk_image window level) r = (r', ok)"
    by (cases "run raise_at (display_2d_steps vtk_image window level) r")
  from assms have ready: "renderer r \<noteq> None"
    by (auto simp: display_2d_image_def split: if_splits)
  from assms ready run have ok: "ok"
    by (cases ok) (simp_all add: display_2d_image_def)
  with run have none: "run None (display_2d_steps vtk_image window level) r = (r', True)"
    using run_completed_no_raise by simp
  have all_ready: "renderer r \<noteq> None \<and> interactor r \<and> render_window r"
  proof (rule ccontr)
    assume "\<not> (renderer r \<noteq> None \<and> interactor r \<and> render_window r)"
    then have "snd (run None (display_2d_steps vtk_image window level) r) = False"
      by (rule display_2d_not_completed)
    with none show False by simp
  qed
  then obtain props where "renderer r = Some props" by auto
  note completed = display_2d_completed [OF \<open>renderer r = Some props\<close>, of vtk_image window level]
  have "fst (run None (display_2d_steps vtk_image window level) r) = r'"
    using none by simp
  then have "window_level r' = Some \<lparr>wl_input = Some vtk_image,
        wl_window = (case window of None \<Rightarrow> snd (vtk_scalar_range vtk_image) - fst (vtk_scalar_range vtk_image) | Some w \<Rightarrow> w),
        wl_level = (case level of None \<Rightarrow> (snd (vtk_scalar_range vtk_image) + fst (vtk_scalar_range vtk_image)) / 2 | Some l \<Rightarrow> l)\<rparr>"
    using all_ready by (auto simp: completed)
  moreover have "fst (display_2d_image raise_at vtk_image window level r) = r'"
    using \<open>renderer r = Some props\<close> run by (simp add: display_2d_image_def split: bool.splits)
  ultimately show ?thesis by simp
qed

theorem display_2d_image_window_level_witness:
  "snd (snd (display_2d_image None ct_volume None None ready_renderer))
   \<and> window_level (fst (display_2d_image None ct_volume None None ready_renderer))
       = Some \<lparr>wl_input = Some ct_volume, wl_window = 3000, wl_level = 500\<rparr>
   \<and> snd (snd (display_2d_image None ct_volume (Some 400) (Some 40) ready_renderer))
   \<and> window_level (fst (display_2d_image None ct_volume (Some 400) (Some 40) ready_renderer))
       = Some \<lparr>wl_input = Some ct_volume, wl_window = 400, wl_level = 40\<rparr>"
proof -
  have h1: "snd (snd (display_2d_image None ct_volume None None ready_renderer))"
    by (simp add: display_2d_image_def ready_renderer_eq vtk_renderer_init_def
        display_2d_completed [of _ "[]"])
  have h2: "snd (snd (display_2d_image None ct_volume (Some 400) (Some 40) ready_renderer))"
    by (simp add: display_2d_image_def ready_renderer_eq vtk_renderer_init_def
        display_2d_completed [of _ "[]"])
  show ?thesis
    using h1 h2 display_2d_image_window_level [OF h1] display_2d_image_window_level [OF h2]
    by (simp add: ct_volume_def)
qed

section \<open>Results: window and level update\<close>

lemma raise_at_cases3:
  "raise_at = None \<or> raise_at = Some 0 \<or> raise_at = Some (Suc 0) \<or> raise_at = Some (Suc (Suc 0))
   \<or> (\<exists>k. raise_at = Some (Suc (Suc (Suc k))))"
proof (cases raise_at)
  case None
  then show ?thesis by simp
next
  case (Some n)
  then show ?thesis
    by (cases n; simp; rename_tac m; case_tac m; simp; rename_tac j; case_tac j; simp)
qed

lemma update_window_level_2d:
  assumes "current_display_mode r = Some Mode_2D" "window_level r = Some wl"
    "update_window_level raise_at window level r = (r', effects, ok)"
  shows "r' = r\<lparr>window_level := window_level r'\<rparr>
       \<and> map_option wl_input (window_level r') = Some (wl_input wl)
       \<and> (ok \<longrightarrow> map_option wl_window (window_level r') = Some window
               \<and> map_option wl_level (window_level r') = Some level)"
  using raise_at_cases3 [of raise_at] assms
  by (elim disjE exE) (auto simp: update_window_level_def step_defs split: if_splits)

lemma display_stl_completed:
  assumes "renderer r = Some props" "interactor r" "render_window r"
  shows "run None (display_stl_steps pd color) r =
     (r\<lparr>renderer := Some [Stl_actor], current_style := Some InteractorStyleTrackballCamera,
        displayed_polydata := Some pd, current_display_mode := Some Mode_STL,
        stl_mapper := Some (Some pd), stl_actor := Some color\<rparr>, True)"
  using assms
  by (simp add: display_stl_steps_def step_defs)

text \<open>The renderer's method, in a mode other than 2D and in 2D mode.\<close>

lemma update_window_level_renderer:
  "(current_display_mode r \<noteq> Some Mode_2D \<longrightarrow>
      update_window_level raise_at window level r = (r, [], False))
   \<and> (current_display_mode r = Some Mode_2D \<longrightarrow>
        fst (update_window_level raise_at window level r)
          = r\<lparr>window_level := window_level (fst (update_window_level raise_at window level r))\<rparr>
        \<and> map_option wl_input (window_level (fst (update_window_level raise_at window level r)))
          = map_option wl_input (window_level r)
        \<and> (snd (snd (update_window_level raise_at window level r)) \<longrightarrow>
             map_option wl_window (window_level (fst (update_window_level raise_at window level r)))
               = Some window
           \<and> map_option wl_level (window_level (fst (update_window_level raise_at window level r)))
               = Some level))"
proof (cases "current_display_mode r = Some Mode_2D")
  case False
  then show ?thesis by (simp add: update_window_level_def)
next
  case mode: True
  show ?thesis
  proof (cases "window_level r")
    case None
    then show ?thesis using mode by (simp add: update_window_level_def)
  next
    case (Some wl)
    obtain r' effects ok where res: "update_window_level raise_at window level r = (r', effects, ok)"
      by (cases "update_window_level raise_at window level r") auto
    from update_window_level_2d [OF mode Some res] res mode Some show ?thesis by simp
  qed
qed

section \<open>Results: transfer functions\<close>

lemma setup_default:
  "preset \<noteq> ''ct_bone'' \<Longrightarrow> preset \<noteq> ''ct_soft_tissue'' \<Longrightarrow>
   setup_transfer_functions vtk_image preset = setup_transfer_functions vtk_image ''default''"
  by (simp add: setup_transfer_functions_def)

lemma setup_completed:
  assumes "color_func r = Some cs" "opacity_func r = Some os"
  shows "run None (setup_transfer_functions vtk_image preset) r =
    (r\<lparr>color_func := Some (fst (preset_points preset (vtk_scalar_range vtk_image))),
       opacity_func := Some (snd (preset_points preset (vtk_scalar_range vtk_image)))\<rparr>, True)"
  using assms
  by (simp add: setup_transfer_functions_def preset_points_def Let_def step_defs)


lemma run_None_append:
  "run None (fs @ gs) r =
     (if snd (run None fs r) then run None gs (fst (run None fs r)) else (fst (run None fs r), False))"
proof (induction fs arbitrary: r)
  case Nil
  then show ?case by simp
next
  case (Cons f fs)
  then show ?case by (cases "f r") simp_all
qed

lemma display_3d_completed:
  assumes "renderer r = Some props" "interactor r" "render_window r"
  shows "run None (display_3d_steps vtk_image preset) r =
     (r\<lparr>renderer := Some [Volume_prop], current_style := Some InteractorStyleTrackballCamera,
        displayed_vtk_image := Some vtk_image, current_display_mode := Some Mode_3D_VOLUME,
        volume_mapper := Some (Some vtk_image), volume := True,
        color_func := Some (fst (preset_points preset (vtk_scalar_range vtk_image))),
        opacity_func := Some (snd (preset_points preset (vtk_scalar_range vtk_image)))\<rparr>, True)"
  using assms
  by (simp add: display_3d_steps_def setup_transfer_functions_def preset_points_def Let_def step_defs)



lemma update_3d_completed:
  assumes "current_display_mode r = Some Mode_3D_VOLUME" "displayed_vtk_image r = Some vtk_image"
    "color_func r = Some cs" "opacity_func r = Some os" "render_window r"
  shows "update_3d_transfer_function None preset r =
    (r\<lparr>color_func := Some (fst (preset_points preset (vtk_scalar_range vtk_image))),
       opacity_func := Some (snd (preset_points preset (vtk_scalar_range vtk_image)))\<rparr>,
     [Log Log_image_processing ''TRANSFER_FUNCTION_UPDATE''], True)"
  using assms
  by (simp add: update_3d_transfer_function_def run_None_append setup_completed [of r cs os] Render_def)



section \<open>Results: presets\<close>



lemma render_window_ready: "render_window ready_renderer"
  by (simp add: ready_renderer_eq vtk_renderer_init_def)


text \<open>
  C9. A preset name other than \<open>ct_bone\<close> and \<open>ct_soft_tissue\<close> is treated as
  \<open>default\<close>: the same points are installed, so \<^verbatim>\<open>update_3d_transfer_function\<close> and
  \<^verbatim>\<open>display_3d_volume\<close> do with it what they do with \<open>default\<close>; in a renderer that
  shows a volume in 3D mode with its transfer functions and render window in place, the
  update succeeds and installs the default points.
\<close>

theorem unknown_preset_is_default:
  assumes "preset \<noteq> ''ct_bone''" and "preset \<noteq> ''ct_soft_tissue''"
  shows "setup_transfer_functions vtk_image preset = setup_transfer_functions vtk_image ''default''
       \<and> update_3d_transfer_function raise_at preset r = update_3d_transfer_function raise_at ''default'' r
       \<and> display_3d_volume raise_at vtk_image preset r = display_3d_volume raise_at vtk_image ''default'' r
       \<and> (current_display_mode r = Some Mode_3D_VOLUME \<and> displayed_vtk_image r = Some vtk_image
            \<and> color_func r \<noteq> None \<and> opacity_func r \<noteq> None \<and> render_window r
            \<and> vtk_scalar_range vtk_image = (lo, hi) \<longrightarrow>
          update_3d_transfer_function None preset r =
            (r\<lparr>color_func := Some [(lo, 0, 0, 0), (lo + (hi - lo) * 0.3, 0.5, 0.2, 0.1),
                                    (lo + (hi - lo) * 0.6, 1, 0.7, 0.6), (hi, 1, 1, 1)],
               opacity_func := Some [(lo, 0), (lo + (hi - lo) * 0.1, 0),
                                      (lo + (hi - lo) * 0.3, 0.3), (hi, 1)]\<rparr>,
             [Log Log_image_processing ''TRANSFER_FUNCTION_UPDATE''], True))"
proof -
  have same: "setup_transfer_functions img preset = setup_transfer_functions img ''default''" for img
    using assms by (rule setup_default)
  have "update_3d_transfer_function raise_at preset r = update_3d_transfer_function raise_at ''default'' r"
    by (cases "displayed_vtk_image r") (simp_all add: update_3d_transfer_function_def same)
  moreover have "display_3d_volume raise_at vtk_image preset r = display_3d_volume raise_at vtk_image ''default'' r"
    by (simp add: display_3d_volume_def display_3d_steps_def same)
  moreover have "update_3d_transfer_function None preset r =
            (r\<lparr>color_func := Some [(lo, 0, 0, 0), (lo + (hi - lo) * 0.3, 0.5, 0.2, 0.1),
                                    (lo + (hi - lo) * 0.6, 1, 0.7, 0.6), (hi, 1, 1, 1)],
               opacity_func := Some [(lo, 0), (lo + (hi - lo) * 0.1, 0),
                                      (lo + (hi - lo) * 0.3, 0.3), (hi, 1)]\<rparr>,
             [Log Log_image_processing ''TRANSFER_FUNCTION_UPDATE''], True)"
    if "current_display_mode r = Some Mode_3D_VOLUME" "displayed_vtk_image r = Some vtk_image"
       "color_func r \<noteq> None" "opacity_func r \<noteq> None" "render_window r"
       "vtk_scalar_range vtk_image = (lo, hi)"
  proof -
    from that obtain cs os where "color_func r = Some cs" "opacity_func r = Some os" by auto
    with that assms show ?thesis
      by (simp add: update_3d_completed [of r vtk_image cs os] preset_points_def)
  qed
  ultimately show ?thesis using same by blast
qed

theorem unknown_preset_is_default_witness:
  "''CT_BONE'' \<noteq> ''ct_bone'' \<and> ''CT_BONE'' \<noteq> ''ct_soft_tissue''
   \<and> update_3d_transfer_function None ''CT_BONE''
         (fst (display_3d_volume None ct_volume ''ct_bone'' ready_renderer))
     = update_3d_transfer_function None ''default''
         (fst (display_3d_volume None ct_volume ''ct_bone'' ready_renderer))
   \<and> snd (snd (update_3d_transfer_function None ''CT_BONE''
         (fst (display_3d_volume None ct_volume ''ct_bone'' ready_renderer))))
   \<and> color_func (fst (update_3d_transfer_function None ''CT_BONE''
         (fst (display_3d_volume None ct_volume ''ct_bone'' ready_renderer))))
     = Some [(-1000, 0, 0, 0), (-100, 0.5, 0.2, 0.1), (800, 1, 0.7, 0.6), (2000, 1, 1, 1)]
   \<and> opacity_func (fst (update_3d_transfer_function None ''CT_BONE''
         (fst (display_3d_volume None ct_volume ''ct_bone'' ready_renderer))))
     = Some [(-1000, 0), (-700, 0), (-100, 0.3), (2000, 1)]"
proof -
  let ?r = "fst (display_3d_volume None ct_volume ''ct_bone'' ready_renderer)"
  have r: "?r = ready_renderer\<lparr>renderer := Some [Volume_prop], current_style := Some InteractorStyleTrackballCamera,
        displayed_vtk_image := Some ct_volume, current_display_mode := Some Mode_3D_VOLUME,
        volume_mapper := Some (Some ct_volume), volume := True,
        color_func := Some (fst (preset_points ''ct_bone'' (vtk_scalar_range ct_volume))),
        opacity_func := Some (snd (preset_points ''ct_bone'' (vtk_scalar_range ct_volume)))\<rparr>"
    by (simp add: display_3d_volume_def ready_renderer_eq vtk_renderer_init_def
        display_3d_completed [of _ "[]"])
  have h1: "''CT_BONE'' \<noteq> ''ct_bone''" by simp
  have h2: "''CT_BONE'' \<noteq> ''ct_soft_tissue''" by simp
  have h3: "vtk_scalar_range ct_volume = (-1000, 2000)" by (simp add: ct_volume_def)
  have st: "current_display_mode ?r = Some Mode_3D_VOLUME \<and> displayed_vtk_image ?r = Some ct_volume
            \<and> color_func ?r \<noteq> None \<and> opacity_func ?r \<noteq> None \<and> render_window ?r
            \<and> vtk_scalar_range ct_volume = (-1000, 2000)"
    using h3 by (simp add: r render_window_ready)
  note default = unknown_preset_is_default [OF h1 h2, of ct_volume None ?r "-1000" 2000]
  from default have eq: "update_3d_transfer_function None ''CT_BONE'' ?r
      = update_3d_transfer_function None ''default'' ?r"
    by blast
  from default st have res: "update_3d_transfer_function None ''CT_BONE'' ?r =
      (?r\<lparr>color_func := Some [(-1000, 0, 0, 0), (-1000 + (2000 - (-1000)) * 0.3, 0.5, 0.2, 0.1),
                              (-1000 + (2000 - (-1000)) * 0.6, 1, 0.7, 0.6), (2000, 1, 1, 1)],
          opacity_func := Some [(-1000, 0), (-1000 + (2000 - (-1000)) * 0.1, 0),
                                (-1000 + (2000 - (-1000)) * 0.3, 0.3), (2000, 1)]\<rparr>,
       [Log Log_image_processing ''TRANSFER_FUNCTION_UPDATE''], True)"
    by blast
  show ?thesis
    by (intro conjI h1 h2 eq) (simp_all add: res)
qed

section \<open>Results: metadata copy\<close>

lemma mutate_all_other:
  "a \<noteq> b \<Longrightarrow> mutate_all b ms h ! a = h ! a"
  by (induction ms arbitrary: h) (simp_all add: mutate_at_def)

lemma length_mutate_all: "length (mutate_all b ms h) = length h"
  by (induction ms arbitrary: h) (simp_all add: mutate_at_def)

text \<open>
  C10. \<^verbatim>\<open>get_metadata\<close> returns a new dictionary with the items of the processor's
  own: the processor's dictionary is untouched by the call, it stays untouched under any
  sequence of changes the caller makes to the returned dictionary, and a later
  \<^verbatim>\<open>get_metadata\<close> returns the original items again.
\<close>

theorem get_metadata_returns_copy:
  assumes "image_metadata_ref < length h"
    and "get_metadata image_metadata_ref h = (returned, h1)"
    and "get_metadata image_metadata_ref (mutate_all returned ms h1) = (returned_later, h2)"
  shows "returned \<noteq> image_metadata_ref
       \<and> h1 ! image_metadata_ref = h ! image_metadata_ref
       \<and> h1 ! returned = h ! image_metadata_ref
       \<and> mutate_all returned ms h1 ! image_metadata_ref = h ! image_metadata_ref
       \<and> h2 ! image_metadata_ref = h ! image_metadata_ref
       \<and> h2 ! returned_later = h ! image_metadata_ref"
proof -
  from assms(2) have ret: "returned = length h" and h1: "h1 = h @ [h ! image_metadata_ref]"
    by (simp_all add: get_metadata_def dict_copy_def)
  have ne: "returned \<noteq> image_metadata_ref" using assms(1) ret by simp
  have a1: "h1 ! image_metadata_ref = h ! image_metadata_ref"
    using assms(1) by (simp add: h1 nth_append)
  have a2: "h1 ! returned = h ! image_metadata_ref"
    by (simp add: h1 ret)
  have a3: "mutate_all returned ms h1 ! image_metadata_ref = h ! image_metadata_ref"
    using ne a1 by (simp add: mutate_all_other)
  have len: "length (mutate_all returned ms h1) = Suc (length h)"
    by (simp add: length_mutate_all h1)
  from assms(3) have later: "returned_later = length (mutate_all returned ms h1)"
    and h2: "h2 = mutate_all returned ms h1 @ [mutate_all returned ms h1 ! image_metadata_ref]"
    by (simp_all add: get_metadata_def dict_copy_def)
  have a4: "h2 ! image_metadata_ref = h ! image_metadata_ref"
    using assms(1) a3 len by (simp add: h2 nth_append)
  have a5: "h2 ! returned_later = h ! image_metadata_ref"
    using a3 by (simp add: h2 later)
  show ?thesis using ne a1 a2 a3 a4 a5 by simp
qed

theorem get_metadata_returns_copy_witness:
  "(0::nat) < length [[(''image_type'', PyStr ''STL'')]]
   \<and> get_metadata 0 [[(''image_type'', PyStr ''STL'')]]
       = (1, [[(''image_type'', PyStr ''STL'')], [(''image_type'', PyStr ''STL'')]])
   \<and> get_metadata 0 (mutate_all 1 [SetItem ''image_type'' (PyStr ''DICOM''), DelItem ''image_type'', Clear]
         [[(''image_type'', PyStr ''STL'')], [(''image_type'', PyStr ''STL'')]])
       = (2, [[(''image_type'', PyStr ''STL'')], [], [(''image_type'', PyStr ''STL'')]])
   \<and> mutate_all 1 [SetItem ''image_type'' (PyStr ''DICOM''), DelItem ''image_type'', Clear]
         [[(''image_type'', PyStr ''STL'')], [(''image_type'', PyStr ''STL'')]] ! 0
       = [(''image_type'', PyStr ''STL'')]"
proof -
  have h1: "(0::nat) < length [[(''image_type'', PyStr ''STL'')]]" by simp
  have h2: "get_metadata 0 [[(''image_type'', PyStr ''STL'')]]
       = (1, [[(''image_type'', PyStr ''STL'')], [(''image_type'', PyStr ''STL'')]])"
    by (simp add: get_metadata_def dict_copy_def)
  have h3: "get_metadata 0 (mutate_all 1 [SetItem ''image_type'' (PyStr ''DICOM''), DelItem ''image_type'', Clear]
         [[(''image_type'', PyStr ''STL'')], [(''image_type'', PyStr ''STL'')]])
       = (2, [[(''image_type'', PyStr ''STL'')], [], [(''image_type'', PyStr ''STL'')]])"
    by (simp add: get_metadata_def dict_copy_def mutate_at_def)
  show ?thesis
    using h1 h2 h3 get_metadata_returns_copy [OF h1 h2 h3]
    by simp
qed

section \<open>Results: the display mode along the operations\<close>

lemma run_stays:
  assumes "stays m m' r"
    and "\<forall>f\<in>set fs. \<forall>x y. stays m m' x \<longrightarrow> f x = Some y \<longrightarrow> stays m m' y"
  shows "stays m m' (fst (run raise_at fs r))"
  using assms by (rule run_invariant [where Q = "stays m m'"])

lemma display_2d_image_stays:
  assumes "stays m m r"
  shows "stays m (Some Mode_2D) (fst (display_2d_image raise_at vtk_image window level r))"
proof -
  have start: "stays m (Some Mode_2D) r" using assms by (simp add: stays_def)
  have "stays m (Some Mode_2D) (fst (run raise_at (display_2d_steps vtk_image window level) r))"
    using start unfolding display_2d_steps_def Let_def
    by (rule run_stays) (auto simp: stays_def window_ready_def step_defs split: option.splits if_splits)
  then show ?thesis using start
    by (cases "run raise_at (display_2d_steps vtk_image window level) r") (auto simp: display_2d_image_def split: bool.splits)
qed

lemma display_3d_volume_stays:
  assumes "stays m m r"
  shows "stays m (Some Mode_3D_VOLUME) (fst (display_3d_volume raise_at vtk_image preset r))"
proof -
  have start: "stays m (Some Mode_3D_VOLUME) r" using assms by (simp add: stays_def)
  have "stays m (Some Mode_3D_VOLUME) (fst (run raise_at (display_3d_steps vtk_image preset) r))"
    using start unfolding display_3d_steps_def setup_transfer_functions_def Let_def
    by (rule run_stays) (auto simp: stays_def window_ready_def step_defs split: option.splits if_splits)
  then show ?thesis using start
    by (cases "run raise_at (display_3d_steps vtk_image preset) r") (auto simp: display_3d_volume_def split: bool.splits)
qed

lemma display_stl_model_stays:
  assumes "stays m m r"
  shows "stays m (Some Mode_STL) (fst (display_stl_model raise_at pd color r))"
proof -
  have start: "stays m (Some Mode_STL) r" using assms by (simp add: stays_def)
  have "stays m (Some Mode_STL) (fst (run raise_at (display_stl_steps pd color) r))"
    using start unfolding display_stl_steps_def
    by (rule run_stays) (auto simp: stays_def window_ready_def step_defs split: option.splits if_splits)
  then show ?thesis using start
    by (cases "run raise_at (display_stl_steps pd color) r") (auto simp: display_stl_model_def split: bool.splits)
qed

lemma update_window_level_stays:
  assumes "stays m m r"
  shows "stays m m (fst (update_window_level raise_at window level r))"
proof -
  have "stays m m (fst (run raise_at [SetWindow window, SetLevel level, Render] r))"
    using assms
    by (rule run_stays) (auto simp: stays_def window_ready_def step_defs split: option.splits if_splits)
  then show ?thesis using assms
    by (cases "run raise_at [SetWindow window, SetLevel level, Render] r")
       (auto simp: update_window_level_def split: bool.splits)
qed

lemma update_3d_transfer_function_stays:
  assumes "stays m m r"
  shows "stays m m (fst (update_3d_transfer_function raise_at preset r))"
proof (cases "displayed_vtk_image r")
  case None
  then show ?thesis using assms by (simp add: update_3d_transfer_function_def)
next
  case (Some vtk_image)
  have "stays m m (fst (run raise_at (setup_transfer_functions vtk_image preset @ [Render]) r))"
    using assms unfolding setup_transfer_functions_def Let_def
    by (rule run_stays) (auto simp: stays_def window_ready_def step_defs split: option.splits if_splits)
  then show ?thesis using assms Some
    by (cases "run raise_at (setup_transfer_functions vtk_image preset @ [Render]) r")
       (auto simp: update_3d_transfer_function_def split: bool.splits)
qed

lemma reset_camera_stays:
  assumes "stays m m r"
  shows "stays m m (fst (reset_camera raise_at r))"
proof -
  have "stays m m (fst (run raise_at [Render] r))"
    using assms
    by (rule run_stays) (auto simp: stays_def window_ready_def step_defs split: option.splits if_splits)
  then show ?thesis using assms by (simp add: reset_camera_def)
qed

lemma clear_display_stays:
  assumes "stays m m r"
  shows "stays m None (fst (clear_display raise_at r))"
    and "snd (snd (clear_display raise_at r)) \<Longrightarrow> current_display_mode (fst (clear_display raise_at r)) = None"
proof -
  have st: "stays m m (fst (run raise_at [RemoveAllViewProps, Render] r))"
    using assms
    by (rule run_stays) (auto simp: stays_def window_ready_def step_defs split: option.splits if_splits)
  show "stays m None (fst (clear_display raise_at r))"
    using st assms
    by (cases "run raise_at [RemoveAllViewProps, Render] r")
       (auto simp: clear_display_def stays_def window_ready_def split: bool.splits)
  show "snd (snd (clear_display raise_at r)) \<Longrightarrow> current_display_mode (fst (clear_display raise_at r)) = None"
    by (cases "run raise_at [RemoveAllViewProps, Render] r")
       (auto simp: clear_display_def split: bool.splits if_splits)
qed

lemma initialize_render_window_stays:
  assumes "stays m m r"
  shows "stays m m (fst (initialize_render_window raise_at r))"
proof -
  let ?rest = "[\<lambda>r. Some (r\<lparr>renderer := Some []\<rparr>),
              \<lambda>r. Some (r\<lparr>interactor := True\<rparr>),
              \<lambda>r. Some (r\<lparr>current_style := Some InteractorStyleImage\<rparr>),
              SetInteractorStyle]"
  let ?Q = "\<lambda>x. current_display_mode x = m \<and> render_window x"
  have rest: "?Q (fst (run k ?rest x))" if "?Q x" for k x
    using that
    by (rule run_invariant [where Q = ?Q]) (auto simp: step_defs split: if_splits)
  have "stays m m (fst (run raise_at ((\<lambda>r. Some (r\<lparr>render_window := True\<rparr>)) # ?rest) r))"
  proof (cases "raise_at = Some 0")
    case True
    then show ?thesis using assms by simp
  next
    case False
    have "?Q (r\<lparr>render_window := True\<rparr>)" using assms by (simp add: stays_def)
    then have "?Q (fst (run (map_option (\<lambda>k. k - 1) raise_at) ?rest (r\<lparr>render_window := True\<rparr>)))"
      by (rule rest)
    then show ?thesis using False by (simp add: stays_def window_ready_def)
  qed
  then show ?thesis
    by (cases "run raise_at ((\<lambda>r. Some (r\<lparr>render_window := True\<rparr>)) # ?rest) r")
       (auto simp: initialize_render_window_def split: bool.splits)
qed

section \<open>Results: image processor\<close>

lemma load_dicom_series_failed:
  assumes "load_dicom_series env directory p = (p', effects, None)"
  shows "p' = p \<and> (\<exists>msg. last effects = Emit ErrorOccurred msg)"
  using assms
  by (auto simp: load_dicom_series_def dicom_load_failed_def Let_def
      split: if_splits lib.splits list.splits)

lemma load_dicom_series_loaded:
  assumes "load_dicom_series env directory p = (p', effects, Some img)"
  shows "current_sitk_image p' = Some img \<and> current_polydata p' = current_polydata p
       \<and> current_vtk_image p' = current_vtk_image p
       \<and> (\<exists>n. image_metadata p' = image_metadata (extract_dicom_metadata img n image_processor_init))"
  using assms
  by (auto simp: load_dicom_series_def dicom_load_failed_def extract_dicom_metadata_def Let_def
      split: if_splits lib.splits list.splits)

lemma load_stl_file_failed:
  assumes "load_stl_file env filepath p = (p', effects, None)"
  shows "p' = p \<and> (\<exists>msg. last effects = Emit ErrorOccurred msg)"
  using assms
  by (auto simp: load_stl_file_def Let_def split: if_splits lib.splits prod.splits)

lemma load_stl_file_loaded:
  assumes "load_stl_file env filepath p = (p', effects, Some pd)"
  shows "current_polydata p' = Some pd \<and> current_sitk_image p' = current_sitk_image p
       \<and> current_vtk_image p' = current_vtk_image p
       \<and> (case st_size env of
             Raises e \<Rightarrow> image_metadata p' = image_metadata p
           | Returns n \<Rightarrow> image_metadata p' =
               [(''image_type'', PyStr ''STL''), (''filepath'', PyStr filepath),
                (''num_points'', PyInt (int (number_of_points pd))),
                (''num_cells'', PyInt (int (number_of_cells pd))),
                (''bounds'', PyFloats (bounds pd)), (''file_size'', PyInt (int n))])"
  using assms
  by (auto simp: load_stl_file_def extract_stl_metadata_def Let_def
      split: if_splits lib.splits prod.splits)

lemma convert_sitk_to_vtk_fields:
  assumes "convert_sitk_to_vtk conv img p = (p', effects, res)"
  shows "current_sitk_image p' = current_sitk_image p \<and> current_polydata p' = current_polydata p
       \<and> image_metadata p' = image_metadata p
       \<and> (res = None \<longrightarrow> p' = p \<and> (\<exists>msg. last effects = Emit ErrorOccurred msg))
       \<and> (res \<noteq> None \<longrightarrow> current_vtk_image p' = res)"
  using assms
  by (auto simp: convert_sitk_to_vtk_def Let_def split: lib.splits)

section \<open>Results: consistency of the controller state\<close>

lemma consistent_stays:
  "consistent a \<Longrightarrow> stays (current_display_mode (vtk_renderer a)) (current_display_mode (vtk_renderer a)) (vtk_renderer a)"
  by (simp add: consistent_def stays_def)

text \<open>A change of the renderer alone, to a mode that the resident data supports.\<close>

lemma consistent_renderer_update:
  assumes "consistent a"
    and "stays (current_display_mode (vtk_renderer a)) m' r'"
    and "image_processor a' = image_processor a" and "vtk_renderer a' = r'"
    and "m' = Some Mode_2D \<or> m' = Some Mode_3D_VOLUME \<Longrightarrow> current_sitk_image (image_processor a) \<noteq> None"
    and "m' = Some Mode_STL \<Longrightarrow> current_polydata (image_processor a) \<noteq> None"
  shows "consistent a'"
proof -
  have mm: "mode_matches a" and cv: "current_vtk_image (image_processor a) \<noteq> None \<longrightarrow>
           current_sitk_image (image_processor a) \<noteq> None"
    using assms(1) by (simp_all add: consistent_def)
  have wr: "window_ready r'" using assms(2) by (simp add: stays_def)
  from assms(2) have "current_display_mode r' = current_display_mode (vtk_renderer a) \<or> current_display_mode r' = m'"
    by (simp add: stays_def)
  then have "mode_matches a'"
  proof
    assume "current_display_mode r' = current_display_mode (vtk_renderer a)"
    then show ?thesis using mm assms(3,4)
      by (auto simp: mode_matches_def split: option.splits display_mode.splits)
  next
    assume m: "current_display_mode r' = m'"
    show ?thesis
    proof (cases m')
      case None
      then show ?thesis using m assms(4) by (simp add: mode_matches_def)
    next
      case (Some mode)
      then show ?thesis using m assms(3,4,5,6) by (cases mode) (simp_all add: mode_matches_def)
    qed
  qed
  then show ?thesis using cv wr assms(3,4) by (simp add: consistent_def)
qed

lemma switchTo2DView_consistent:
  assumes "consistent a"
  shows "consistent (fst (switchTo2DView raise_at a))"
proof (cases "current_image_type a \<noteq> Some ''DICOM''")
  case True
  then show ?thesis using assms by (simp add: switchTo2DView_def)
next
  case dicom: False
  show ?thesis
  proof (cases "current_vtk_image (image_processor a)")
    case None
    then show ?thesis using assms dicom by (simp add: switchTo2DView_def)
  next
    case (Some vtk_image)
    let ?res = "display_2d_image raise_at vtk_image None None (vtk_renderer a)"
    have st: "stays (current_display_mode (vtk_renderer a)) (Some Mode_2D) (fst ?res)"
      using assms by (intro display_2d_image_stays consistent_stays)
    have sitk: "current_sitk_image (image_processor a) \<noteq> None"
      using assms Some by (simp add: consistent_def)
    obtain r displayed success where res: "?res = (r, displayed, success)"
      by (cases ?res) auto
    have "consistent (fst (switchTo2DView raise_at a))"
    proof (rule consistent_renderer_update [OF assms st])
      show "image_processor (fst (switchTo2DView raise_at a)) = image_processor a"
        using dicom Some res by (simp add: switchTo2DView_def Let_def)
      show "vtk_renderer (fst (switchTo2DView raise_at a)) = fst ?res"
        using dicom Some res by (simp add: switchTo2DView_def Let_def)
    qed (use sitk in simp_all)
    then show ?thesis .
  qed
qed

section \<open>Results: window and level at the controller\<close>

lemma ready_app_eq:
  "ready_app = app_init\<lparr>vtk_renderer := ready_renderer\<rparr>"
proof -
  have "vtk_renderer app_init = vtk_renderer_init" by (simp add: app_init_def)
  then show ?thesis
    by (cases "initialize_render_window None vtk_renderer_init")
       (simp add: ready_app_def initialize_vtk_widget_def ready_renderer_def)
qed

lemma ready_renderer_fields:
  "renderer ready_renderer = Some []" "interactor ready_renderer" "render_window ready_renderer"
  "current_display_mode ready_renderer = None" "window_level ready_renderer = None"
  by (simp_all add: ready_renderer_eq vtk_renderer_init_def)

lemma mesh_app_eq:
  "mesh_app = ready_app\<lparr>
     image_processor := image_processor_init\<lparr>current_polydata := Some part_mesh,
       image_metadata := [(''image_type'', PyStr ''STL''), (''filepath'', PyStr ''/data/part.stl''),
                (''num_points'', PyInt 3), (''num_cells'', PyInt 1),
                (''bounds'', PyFloats [0, 1, 0, 1, 0, 0]), (''file_size'', PyInt 134)]\<rparr>,
     vtk_renderer := fst (display_stl_model None part_mesh (0.8, 0.8, 0.9) ready_renderer),
     current_image_type := Some ''STL'', current_file_path := Some ''/data/part.stl'',
     is_3d_view := True\<rparr>"
  by (simp add: mesh_app_def loadStlFile_def load_stl_file_def extract_stl_metadata_def
      part_reader_def part_mesh_def Let_def ready_app_eq app_init_def
      display_stl_model_def ready_renderer_fields display_stl_completed [of _ "[]"])

lemma mesh_app_mode: "current_display_mode (vtk_renderer mesh_app) = Some Mode_STL"
  by (simp add: mesh_app_eq display_stl_model_def ready_renderer_fields
      display_stl_completed [of _ "[]"])

text \<open>
  C7, as stated: in STL-Mesh mode a call of \<^verbatim>\<open>updateWindowLevel\<close> is reported as a
  failure to the caller. After the mesh has been loaded, the controller's slot returns
  with the state as it was and with no event and no log entry at all.
\<close>

theorem updateWindowLevel_silent_counterexample:
  "current_display_mode (vtk_renderer mesh_app) = Some Mode_STL
   \<and> updateWindowLevel None 400 40 mesh_app = (mesh_app, [])"
  by (simp add: mesh_app_mode) (simp add: mesh_app_eq updateWindowLevel_def)


lemma ct_app_fields:
  "current_image_type ct_app = Some ''DICOM''" "\<not> is_3d_view ct_app"
  "current_vtk_image (image_processor ct_app) = Some ct_volume"
  "current_sitk_image (image_processor ct_app) = Some ct_image"
  "current_polydata (image_processor ct_app) = None"
  "vtk_renderer ct_app = fst (display_2d_image None ct_volume None None ready_renderer)"
proof -
  have conv: "\<lparr>vtk_dimensions = img_size ct_image, vtk_spacing = img_spacing ct_image,
                vtk_origin = img_origin ct_image, vtk_scalar_range = img_scalar_range ct_image\<rparr> = ct_volume"
    by (simp add: ct_image_def ct_volume_def)
  have ok: "snd (snd (display_2d_image None ct_volume None None ready_renderer))"
    by (simp add: display_2d_image_def ready_renderer_fields display_2d_completed [of _ "[]"])
  obtain r displayed where disp: "display_2d_image None ct_volume None None ready_renderer = (r, displayed, True)"
    using ok by (cases "display_2d_image None ct_volume None None ready_renderer") auto
  have app: "ct_app = ready_app\<lparr>
       image_processor := extract_dicom_metadata ct_image (Suc (Suc 0))
          (image_processor_init\<lparr>current_sitk_image := Some ct_image\<rparr>)\<lparr>current_vtk_image := Some ct_volume\<rparr>,
       vtk_renderer := r, current_image_type := Some ''DICOM'',
       current_file_path := Some ''/data/ct'', is_3d_view := False\<rparr>"
    by (simp add: ct_app_def loadDicomSeries_def validate_dicom_integrity_def load_dicom_series_def
        convert_sitk_to_vtk_def ct_reader_def ct_file_names_def Let_def conv disp
        ready_app_eq app_init_def)
  show "current_image_type ct_app = Some ''DICOM''" "\<not> is_3d_view ct_app"
    "current_vtk_image (image_processor ct_app) = Some ct_volume"
    "current_sitk_image (image_processor ct_app) = Some ct_image"
    "current_polydata (image_processor ct_app) = None"
    "vtk_renderer ct_app = fst (display_2d_image None ct_volume None None ready_renderer)"
    by (simp_all add: app disp extract_dicom_metadata_def image_processor_init_def Let_def)
qed


lemma failed_switch_fields:
  "current_image_type (fst (switchTo3DView (Some 1) ct_app)) = Some ''DICOM''"
  "\<not> is_3d_view (fst (switchTo3DView (Some 1) ct_app))"
  "current_display_mode (vtk_renderer (fst (switchTo3DView (Some 1) ct_app))) = Some Mode_3D_VOLUME"
proof -
  have r2d: "renderer (fst (display_2d_image None ct_volume None None ready_renderer)) = Some [Image_actor]"
    by (simp add: display_2d_image_def ready_renderer_fields display_2d_completed [of _ "[]"])
  have run: "run (Some (Suc 0)) (display_3d_steps ct_volume ''default'')
               (fst (display_2d_image None ct_volume None None ready_renderer))
           = ((fst (display_2d_image None ct_volume None None ready_renderer))
                \<lparr>renderer := Some [], displayed_vtk_image := Some ct_volume,
                  current_display_mode := Some Mode_3D_VOLUME\<rparr>, False)"
    by (simp add: display_3d_steps_def RemoveAllViewProps_def r2d)
  have app: "fst (switchTo3DView (Some 1) ct_app) =
      ct_app\<lparr>vtk_renderer := (fst (display_2d_image None ct_volume None None ready_renderer))
                \<lparr>renderer := Some [], displayed_vtk_image := Some ct_volume,
                  current_display_mode := Some Mode_3D_VOLUME\<rparr>\<rparr>"
    by (simp add: switchTo3DView_def ct_app_fields display_3d_volume_def r2d run Let_def)
  show "current_image_type (fst (switchTo3DView (Some 1) ct_app)) = Some ''DICOM''"
    "\<not> is_3d_view (fst (switchTo3DView (Some 1) ct_app))"
    "current_display_mode (vtk_renderer (fst (switchTo3DView (Some 1) ct_app))) = Some Mode_3D_VOLUME"
    unfolding app by (simp_all add: ct_app_fields)
qed

text \<open>
  C7, amended. In every state whose display mode is not 2D, the renderer's
  \<^verbatim>\<open>update_window_level\<close> returns \<open>False\<close> to its caller, logs nothing and leaves the
  renderer exactly as it was; in 2D mode the only field of the renderer that can differ
  afterwards is the windowing filter, which keeps its input and, when the call succeeds,
  holds the window and level passed. The controller's slot \<^verbatim>\<open>updateWindowLevel\<close>
  returns without any event or log entry, leaving the whole state as it was, when the
  current type is not DICOM or the 3D view is active (so in STL-Mesh mode after a mesh
  load); when the type is DICOM, the 3D view is not active and the display mode is not
  2D, it leaves the state as it was and emits the error
  \<open>Failed to update window/level\<close>.
\<close>

theorem update_window_level_reported:
  "(current_display_mode r \<noteq> Some Mode_2D \<longrightarrow>
      update_window_level raise_at window level r = (r, [], False))
   \<and> (current_display_mode r = Some Mode_2D \<longrightarrow>
        fst (update_window_level raise_at window level r)
          = r\<lparr>window_level := window_level (fst (update_window_level raise_at window level r))\<rparr>
        \<and> map_option wl_input (window_level (fst (update_window_level raise_at window level r)))
          = map_option wl_input (window_level r)
        \<and> (snd (snd (update_window_level raise_at window level r)) \<longrightarrow>
             map_option wl_window (window_level (fst (update_window_level raise_at window level r)))
               = Some window
           \<and> map_option wl_level (window_level (fst (update_window_level raise_at window level r)))
               = Some level))
   \<and> (current_image_type a \<noteq> Some ''DICOM'' \<or> is_3d_view a \<longrightarrow>
        updateWindowLevel raise_at window level a = (a, []))
   \<and> (current_image_type a = Some ''DICOM'' \<and> \<not> is_3d_view a
        \<and> current_display_mode (vtk_renderer a) \<noteq> Some Mode_2D \<longrightarrow>
        updateWindowLevel raise_at window level a =
          (a, [Log Log_user_action ''WINDOW_LEVEL_ADJUST'',
               Emit ErrorOccurred ''Failed to update window/level'']))"
proof -
  have silent: "updateWindowLevel raise_at window level a = (a, [])"
    if "current_image_type a \<noteq> Some ''DICOM'' \<or> is_3d_view a"
    using that by (auto simp: updateWindowLevel_def)
  have reported: "updateWindowLevel raise_at window level a =
          (a, [Log Log_user_action ''WINDOW_LEVEL_ADJUST'',
               Emit ErrorOccurred ''Failed to update window/level''])"
    if "current_image_type a = Some ''DICOM''" "\<not> is_3d_view a"
       "current_display_mode (vtk_renderer a) \<noteq> Some Mode_2D"
    using that by (simp add: updateWindowLevel_def update_window_level_def)
  show ?thesis
    using update_window_level_renderer [of r raise_at window level] silent reported
    by blast
qed


theorem update_window_level_reported_witness:
  "current_display_mode (vtk_renderer mesh_app) \<noteq> Some Mode_2D
   \<and> update_window_level None 400 40 (vtk_renderer mesh_app) = (vtk_renderer mesh_app, [], False)
   \<and> current_display_mode (vtk_renderer ct_app) = Some Mode_2D
   \<and> snd (snd (update_window_level None 400 40 (vtk_renderer ct_app)))
   \<and> map_option wl_window (window_level (fst (update_window_level None 400 40 (vtk_renderer ct_app))))
       = Some 400
   \<and> map_option wl_level (window_level (fst (update_window_level None 400 40 (vtk_renderer ct_app))))
       = Some 40
   \<and> current_image_type mesh_app = Some ''STL''
   \<and> updateWindowLevel None 400 40 mesh_app = (mesh_app, [])
   \<and> current_image_type (fst (switchTo3DView (Some 1) ct_app)) = Some ''DICOM''
   \<and> \<not> is_3d_view (fst (switchTo3DView (Some 1) ct_app))
   \<and> current_display_mode (vtk_renderer (fst (switchTo3DView (Some 1) ct_app))) \<noteq> Some Mode_2D
   \<and> updateWindowLevel None 400 40 (fst (switchTo3DView (Some 1) ct_app))
       = (fst (switchTo3DView (Some 1) ct_app),
          [Log Log_user_action ''WINDOW_LEVEL_ADJUST'',
           Emit ErrorOccurred ''Failed to update window/level''])"
proof -
  let ?failed = "fst (switchTo3DView (Some 1) ct_app)"
  have stl: "current_display_mode (vtk_renderer mesh_app) \<noteq> Some Mode_2D"
    by (simp add: mesh_app_mode)
  have img: "vtk_renderer ct_app = ready_renderer\<lparr>renderer := Some [Image_actor],
        current_style := Some InteractorStyleImage,
        displayed_vtk_image := Some ct_volume, current_display_mode := Some Mode_2D,
        image_actor := True,
        window_level := Some \<lparr>wl_input = Some ct_volume, wl_window = 3000, wl_level = 500\<rparr>\<rparr>"
    by (simp add: ct_app_fields display_2d_image_def ready_renderer_fields
        display_2d_completed [of _ "[]"] ct_volume_def)
  have mode: "current_display_mode (vtk_renderer ct_app) = Some Mode_2D"
    by (simp add: img)
  have ok: "snd (snd (update_window_level None 400 40 (vtk_renderer ct_app)))"
    by (simp add: img ready_renderer_fields update_window_level_def step_defs)
  have stl_type: "current_image_type mesh_app = Some ''STL''"
    by (simp add: mesh_app_eq)
  then have kind: "current_image_type mesh_app \<noteq> Some ''DICOM'' \<or> is_3d_view mesh_app"
    by simp
  have f1: "current_image_type ?failed = Some ''DICOM''"
    and f2: "\<not> is_3d_view ?failed"
    and f3: "current_display_mode (vtk_renderer ?failed) \<noteq> Some Mode_2D"
    using failed_switch_fields by simp_all
  show ?thesis
    using stl mode ok stl_type kind f1 f2 f3
      update_window_level_reported [of "vtk_renderer mesh_app" None 400 40 mesh_app]
      update_window_level_reported [of "vtk_renderer ct_app" None 400 40 ?failed]
    by blast
qed

section \<open>Results: failed loads\<close>






section \<open>Results: consistency along the operations\<close>

lemma switchTo3DView_consistent:
  assumes "consistent a"
  shows "consistent (fst (switchTo3DView raise_at a))"
proof (cases "current_image_type a \<noteq> Some ''DICOM''")
  case True
  then show ?thesis using assms by (simp add: switchTo3DView_def)
next
  case dicom: False
  show ?thesis
  proof (cases "current_vtk_image (image_processor a)")
    case None
    then show ?thesis using assms dicom by (simp add: switchTo3DView_def)
  next
    case (Some vtk_image)
    let ?res = "display_3d_volume raise_at vtk_image ''default'' (vtk_renderer a)"
    have st: "stays (current_display_mode (vtk_renderer a)) (Some Mode_3D_VOLUME) (fst ?res)"
      using assms by (intro display_3d_volume_stays consistent_stays)
    have sitk: "current_sitk_image (image_processor a) \<noteq> None"
      using assms Some by (simp add: consistent_def)
    obtain r displayed success where res: "?res = (r, displayed, success)"
      by (cases ?res) auto
    show "consistent (fst (switchTo3DView raise_at a))"
    proof (rule consistent_renderer_update [OF assms st])
      show "image_processor (fst (switchTo3DView raise_at a)) = image_processor a"
        using dicom Some res by (simp add: switchTo3DView_def Let_def)
      show "vtk_renderer (fst (switchTo3DView raise_at a)) = fst ?res"
        using dicom Some res by (simp add: switchTo3DView_def Let_def)
    qed (use sitk in simp_all)
  qed
qed

text \<open>A change of the renderer that keeps the mode.\<close>

lemma consistent_same_mode:
  assumes "consistent a"
    and "stays (current_display_mode (vtk_renderer a)) (current_display_mode (vtk_renderer a)) r'"
    and "image_processor a' = image_processor a" and "vtk_renderer a' = r'"
  shows "consistent a'"
proof -
  from assms(2) have "current_display_mode r' = current_display_mode (vtk_renderer a)"
    and "window_ready r'"
    by (simp_all add: stays_def)
  then show ?thesis using assms(1,3,4)
    by (auto simp: consistent_def mode_matches_def split: option.splits display_mode.splits)
qed

lemma initialize_vtk_widget_consistent:
  assumes "consistent a"
  shows "consistent (fst (initialize_vtk_widget raise_at a))"
proof -
  let ?res = "initialize_render_window raise_at (vtk_renderer a)"
  obtain r logged ok where res: "?res = (r, logged, ok)" by (cases ?res) auto
  have "stays (current_display_mode (vtk_renderer a)) (current_display_mode (vtk_renderer a)) (fst ?res)"
    using assms by (intro initialize_render_window_stays consistent_stays)
  then show ?thesis
    by (rule consistent_same_mode [OF assms]) (simp_all add: initialize_vtk_widget_def res)
qed

lemma updateWindowLevel_consistent:
  assumes "consistent a"
  shows "consistent (fst (updateWindowLevel raise_at window level a))"
proof (cases "current_image_type a \<noteq> Some ''DICOM'' \<or> is_3d_view a")
  case True
  then show ?thesis using assms by (simp add: updateWindowLevel_def)
next
  case False
  let ?res = "update_window_level raise_at window level (vtk_renderer a)"
  obtain r logged ok where res: "?res = (r, logged, ok)" by (cases ?res) auto
  have "stays (current_display_mode (vtk_renderer a)) (current_display_mode (vtk_renderer a)) (fst ?res)"
    using assms by (intro update_window_level_stays consistent_stays)
  then show ?thesis using False
    by (intro consistent_same_mode [OF assms]) (simp_all add: updateWindowLevel_def res)
qed

lemma update3DPreset_consistent:
  assumes "consistent a"
  shows "consistent (fst (update3DPreset raise_at preset a))"
proof (cases "current_image_type a \<noteq> Some ''DICOM'' \<or> \<not> is_3d_view a")
  case True
  then show ?thesis using assms by (simp add: update3DPreset_def)
next
  case False
  let ?res = "update_3d_transfer_function raise_at preset (vtk_renderer a)"
  obtain r logged ok where res: "?res = (r, logged, ok)" by (cases ?res) auto
  have "stays (current_display_mode (vtk_renderer a)) (current_display_mode (vtk_renderer a)) (fst ?res)"
    using assms by (intro update_3d_transfer_function_stays consistent_stays)
  then show ?thesis using False
    by (intro consistent_same_mode [OF assms]) (simp_all add: update3DPreset_def res)
qed

lemma resetCamera_consistent:
  assumes "consistent a"
  shows "consistent (fst (resetCamera raise_at a))"
proof -
  let ?res = "reset_camera raise_at (vtk_renderer a)"
  obtain r ok where res: "?res = (r, ok)" by (cases ?res) auto
  have "stays (current_display_mode (vtk_renderer a)) (current_display_mode (vtk_renderer a)) (fst ?res)"
    using assms by (intro reset_camera_stays consistent_stays)
  then show ?thesis
    by (intro consistent_same_mode [OF assms]) (simp_all add: resetCamera_def res)
qed


text \<open>A change of processor and renderer under which the resident data only grows.\<close>

lemma consistent_update:
  assumes "consistent a"
    and st: "stays (current_display_mode (vtk_renderer a)) m' (vtk_renderer a')"
    and sitk: "current_sitk_image (image_processor a) \<noteq> None \<Longrightarrow> current_sitk_image (image_processor a') \<noteq> None"
    and poly: "current_polydata (image_processor a) \<noteq> None \<Longrightarrow> current_polydata (image_processor a') \<noteq> None"
    and vtk: "current_vtk_image (image_processor a') \<noteq> None \<Longrightarrow> current_sitk_image (image_processor a') \<noteq> None"
    and volume_mode: "m' = Some Mode_2D \<or> m' = Some Mode_3D_VOLUME \<Longrightarrow> current_sitk_image (image_processor a') \<noteq> None"
    and mesh_mode: "m' = Some Mode_STL \<Longrightarrow> current_polydata (image_processor a') \<noteq> None"
  shows "consistent a'"
proof -
  have mm: "mode_matches a" using assms(1) by (simp add: consistent_def)
  have wr: "window_ready (vtk_renderer a')" using st by (simp add: stays_def)
  from st have "current_display_mode (vtk_renderer a') = current_display_mode (vtk_renderer a)
      \<or> current_display_mode (vtk_renderer a') = m'"
    by (simp add: stays_def)
  then have "mode_matches a'"
  proof
    assume same: "current_display_mode (vtk_renderer a') = current_display_mode (vtk_renderer a)"
    show ?thesis
    proof (cases "current_display_mode (vtk_renderer a)")
      case None
      then show ?thesis using same by (simp add: mode_matches_def)
    next
      case (Some mode)
      then show ?thesis using same mm sitk poly
        by (cases mode) (simp_all add: mode_matches_def)
    qed
  next
    assume new: "current_display_mode (vtk_renderer a') = m'"
    show ?thesis
    proof (cases m')
      case None
      then show ?thesis using new by (simp add: mode_matches_def)
    next
      case (Some mode)
      then show ?thesis using new volume_mode mesh_mode
        by (cases mode) (simp_all add: mode_matches_def)
    qed
  qed
  then show ?thesis using wr vtk by (simp add: consistent_def)
qed

lemma clear_display_not_returned:
  assumes "\<not> snd (snd (clear_display raise_at r))"
  shows "current_display_mode (fst (clear_display raise_at r)) = current_display_mode r"
proof -
  have keep: "(\<lambda>x. current_display_mode x = current_display_mode r)
      (fst (run raise_at [RemoveAllViewProps, Render] r))"
    by (rule run_invariant [where Q = "\<lambda>x. current_display_mode x = current_display_mode r"])
       (auto simp: step_defs split: option.splits if_splits)
  show ?thesis
  proof (cases "renderer r = None")
    case True
    then show ?thesis using assms by (simp add: clear_display_def)
  next
    case False
    then show ?thesis using assms keep
      by (cases "run raise_at [RemoveAllViewProps, Render] r")
         (auto simp: clear_display_def split: bool.splits)
  qed
qed

lemma clearDisplay_consistent:
  assumes "consistent a"
  shows "consistent (fst (clearDisplay raise_at a))"
proof -
  let ?res = "clear_display raise_at (vtk_renderer a)"
  obtain r logged returned where res: "?res = (r, logged, returned)" by (cases ?res) auto
  have st: "stays (current_display_mode (vtk_renderer a)) None r"
    using clear_display_stays(1) [OF consistent_stays [OF assms], of raise_at] res by simp
  show ?thesis
  proof (cases returned)
    case False
    have same: "current_display_mode r = current_display_mode (vtk_renderer a)"
      using clear_display_not_returned [of raise_at "vtk_renderer a"] res False by simp
    have "stays (current_display_mode (vtk_renderer a)) (current_display_mode (vtk_renderer a)) r"
      using st same by (simp add: stays_def)
    then show ?thesis using False
      by (intro consistent_same_mode [OF assms]) (simp_all add: clearDisplay_def res Let_def)
  next
    case True
    have none: "current_display_mode r = None"
      using clear_display_stays(2) [OF consistent_stays [OF assms], of raise_at] res True by simp
    have wr: "window_ready r" using st by (simp add: stays_def)
    show ?thesis using True none wr
      by (simp add: clearDisplay_def res Let_def clear_current_data_def consistent_def
          mode_matches_def)
  qed
qed


lemma loadDicomSeries_consistent:
  assumes "consistent a"
  shows "consistent (fst (loadDicomSeries env conv raise_at directory a))"
proof (cases "directory = []")
  case True
  then show ?thesis using assms by (simp add: loadDicomSeries_def)
next
  case named: False
  obtain is_valid error_msg validated
    where v: "validate_dicom_integrity env directory = ((is_valid, error_msg), validated)"
    by (cases "validate_dicom_integrity env directory") auto
  show ?thesis
  proof (cases is_valid)
    case False
    then show ?thesis using assms named by (simp add: loadDicomSeries_def v)
  next
    case valid: True
    obtain p1 loaded si
      where l: "load_dicom_series env directory (image_processor a) = (p1, loaded, si)"
      by (cases "load_dicom_series env directory (image_processor a)") auto
    show ?thesis
    proof (cases si)
      case None
      then have "p1 = image_processor a" using load_dicom_series_failed l by blast
      then show ?thesis using assms named valid None
        by (simp add: loadDicomSeries_def v l)
    next
      case (Some img)
      have p1: "current_sitk_image p1 = Some img"
        "current_polydata p1 = current_polydata (image_processor a)"
        "current_vtk_image p1 = current_vtk_image (image_processor a)"
        using load_dicom_series_loaded l Some by blast+
      obtain p2 converted vi
        where c: "convert_sitk_to_vtk conv img p1 = (p2, converted, vi)"
        by (cases "convert_sitk_to_vtk conv img p1") auto
      have p2: "current_sitk_image p2 = Some img"
        "current_polydata p2 = current_polydata (image_processor a)"
        using convert_sitk_to_vtk_fields [OF c] p1 by simp_all
      show ?thesis
      proof (cases vi)
        case None
        have a': "fst (loadDicomSeries env conv raise_at directory a) = a\<lparr>image_processor := p2\<rparr>"
          using named valid Some None by (simp add: loadDicomSeries_def v l c)
        show ?thesis unfolding a'
          by (rule consistent_update [OF assms, where m' = "current_display_mode (vtk_renderer a)"])
             (use consistent_stays [OF assms] p2 assms in
               \<open>simp_all add: consistent_def mode_matches_def\<close>)
      next
        case shown: (Some vtk_image)
        obtain r displayed success
          where d: "display_2d_image raise_at vtk_image None None (vtk_renderer a) = (r, displayed, success)"
          by (cases "display_2d_image raise_at vtk_image None None (vtk_renderer a)") auto
        have st: "stays (current_display_mode (vtk_renderer a)) (Some Mode_2D) r"
          using display_2d_image_stays [OF consistent_stays [OF assms], of raise_at vtk_image None None] d
          by simp
        have a': "image_processor (fst (loadDicomSeries env conv raise_at directory a)) = p2"
          "vtk_renderer (fst (loadDicomSeries env conv raise_at directory a)) = r"
          using named valid Some shown
          by (cases success; simp add: loadDicomSeries_def v l c d Let_def)+
        show ?thesis
          by (rule consistent_update [OF assms, where m' = "Some Mode_2D"])
             (use st p2 a' in simp_all)
      qed
    qed
  qed
qed

lemma loadStlFile_consistent:
  assumes "consistent a"
  shows "consistent (fst (loadStlFile env raise_at filepath a))"
proof (cases "filepath = []")
  case True
  then show ?thesis using assms by (simp add: loadStlFile_def)
next
  case named: False
  obtain p1 loaded pd
    where l: "load_stl_file env filepath (image_processor a) = (p1, loaded, pd)"
    by (cases "load_stl_file env filepath (image_processor a)") auto
  show ?thesis
  proof (cases pd)
    case None
    then have "p1 = image_processor a" using load_stl_file_failed l by blast
    then show ?thesis using assms named None
      by (simp add: loadStlFile_def l)
  next
    case (Some mesh)
    have p1: "current_polydata p1 = Some mesh"
      "current_sitk_image p1 = current_sitk_image (image_processor a)"
      "current_vtk_image p1 = current_vtk_image (image_processor a)"
      using load_stl_file_loaded l Some by blast+
    have cv: "current_vtk_image (image_processor a) \<noteq> None \<Longrightarrow>
        current_sitk_image (image_processor a) \<noteq> None"
      using assms by (simp add: consistent_def)
    obtain r displayed success
      where d: "display_stl_model raise_at mesh (0.8, 0.8, 0.9) (vtk_renderer a) = (r, displayed, success)"
      by (cases "display_stl_model raise_at mesh (0.8, 0.8, 0.9) (vtk_renderer a)") auto
    have st: "stays (current_display_mode (vtk_renderer a)) (Some Mode_STL) r"
      using display_stl_model_stays [OF consistent_stays [OF assms], of raise_at mesh "(0.8, 0.8, 0.9)"] d
      by simp
    have a': "image_processor (fst (loadStlFile env raise_at filepath a)) = p1"
      "vtk_renderer (fst (loadStlFile env raise_at filepath a)) = r"
      using named Some d by (cases success; simp add: loadStlFile_def l Let_def)+
    show ?thesis
      by (rule consistent_update [OF assms, where m' = "Some Mode_STL"])
         (use st p1 a' cv in simp_all)
  qed
qed

lemma perform_consistent:
  assumes "consistent a"
  shows "consistent (fst (perform operation a))"
  using assms
  by (cases operation)
     (simp_all add: initialize_vtk_widget_consistent loadDicomSeries_consistent
        loadStlFile_consistent switchTo2DView_consistent switchTo3DView_consistent
        updateWindowLevel_consistent update3DPreset_consistent resetCamera_consistent
        clearDisplay_consistent)

lemma app_init_consistent: "consistent app_init"
  by (simp add: consistent_def mode_matches_def window_ready_def app_init_def
      vtk_renderer_init_def image_processor_init_def)

lemma perform_all_consistent:
  "consistent a \<Longrightarrow> consistent (perform_all operations a)"
  by (induction operations arbitrary: a) (simp_all add: perform_consistent)

section \<open>Results: clearing twice\<close>

lemma clear_display_result:
  assumes "window_ready r"
  shows "clear_display None r =
     ((if renderer r = None then r else r\<lparr>renderer := Some []\<rparr>)
        \<lparr>displayed_vtk_image := None, displayed_polydata := None, current_display_mode := None\<rparr>,
      [Log Log_system_event ''DISPLAY_CLEARED''], True)"
  using assms
  by (cases "renderer r")
     (simp_all add: clear_display_def RemoveAllViewProps_def Render_def window_ready_def)

lemma clear_display_returned:
  assumes "snd (snd (clear_display raise_at r))"
  shows "clear_display raise_at r = clear_display None r"
proof (cases "renderer r")
  case None
  then show ?thesis by (simp add: clear_display_def)
next
  case (Some props)
  obtain r' completed where body: "run raise_at [RemoveAllViewProps, Render] r = (r', completed)"
    by (cases "run raise_at [RemoveAllViewProps, Render] r") auto
  have completed using assms Some
    by (cases completed) (simp_all add: clear_display_def body del: run.simps)
  then have raised: "run raise_at [RemoveAllViewProps, Render] r = (r', True)"
    using body by (simp del: run.simps)
  then have "run None [RemoveAllViewProps, Render] r = (r', True)"
    by (rule run_completed_no_raise)
  then show ?thesis using Some raised
    by (simp add: clear_display_def del: run.simps)
qed

lemma clear_display_failed:
  assumes "\<not> snd (snd (clear_display raise_at r))"
  shows "fst (snd (clear_display raise_at r)) = []"
  using assms
  by (cases "run raise_at [RemoveAllViewProps, Render] r")
     (auto simp: clear_display_def split: if_splits bool.splits)

lemma run_clear_cleared:
  assumes "renderer r \<noteq> None \<Longrightarrow> renderer r = Some []"
  shows "fst (run raise_at [RemoveAllViewProps, Render] r) = r"
proof (cases "renderer r")
  case None
  then show ?thesis by (simp add: RemoveAllViewProps_def)
next
  case (Some props)
  then have "renderer r = Some []" using assms by simp
  then have "r\<lparr>renderer := Some []\<rparr> = r" by (cases r) simp
  then have "RemoveAllViewProps r = Some r" using Some by (simp add: RemoveAllViewProps_def)
  then show ?thesis by (simp add: Render_def)
qed

lemma clear_display_failed_cleared:
  assumes "\<not> snd (snd (clear_display raise_at r))"
    and "renderer r \<noteq> None \<Longrightarrow> renderer r = Some []"
  shows "fst (clear_display raise_at r) = r"
proof (cases "renderer r")
  case None
  then show ?thesis using assms(1) by (simp add: clear_display_def)
next
  case (Some props)
  have same: "fst (run raise_at [RemoveAllViewProps, Render] r) = r"
    using assms(2) by (rule run_clear_cleared)
  obtain r' completed where body: "run raise_at [RemoveAllViewProps, Render] r = (r', completed)"
    by (cases "run raise_at [RemoveAllViewProps, Render] r") auto
  have "r' = r" using same by (simp add: body del: run.simps)
  moreover have "\<not> completed" using assms(1) Some
    by (cases completed) (simp_all add: clear_display_def body del: run.simps)
  ultimately show ?thesis using Some by (simp add: clear_display_def body del: run.simps)
qed

lemma clear_display_twice:
  assumes "window_ready r"
  shows "clear_display None (fst (clear_display None r)) =
     (fst (clear_display None r), [Log Log_system_event ''DISPLAY_CLEARED''], True)"
proof -
  let ?once = "fst (clear_display None r)"
  have wr: "window_ready ?once" using assms
    by (simp add: clear_display_result window_ready_def)
  show ?thesis
    unfolding clear_display_result [OF wr]
    using assms by (simp add: clear_display_result)
qed

text \<open>
  C8: for every state \<^term>\<open>a\<close> that the operations reach from the initial one, a call of
  \<^verbatim>\<open>clearDisplay\<close> during which the rendering library raises nothing reports no error, and
  whenever a first call has reported none, the state after it has Display Mode None, no
  resident volume, converted volume or mesh, an empty Metadata Map, no image type and no
  file path, and a second call (the library again raising nothing) returns that very state,
  with the success events only. Whatever the library does during the second call, the
  state after it is that same state.
\<close>

theorem clearDisplay_idempotent:
  assumes "a = perform_all operations app_init"
    and "clearDisplay raise_at a = (once, reported)"
  shows "(raise_at = None \<longrightarrow>
            reported = [Log Log_user_action ''CLEAR_DISPLAY'', Log Log_system_event ''DISPLAY_CLEARED'',
                        Log Log_system_event ''DATA_CLEARED'', Emit StatusUpdate ''Display cleared''])
       \<and> (Emit ErrorOccurred ''Error clearing display: '' \<notin> set reported \<longrightarrow>
            current_display_mode (vtk_renderer once) = None
          \<and> displayed_vtk_image (vtk_renderer once) = None
          \<and> displayed_polydata (vtk_renderer once) = None
          \<and> current_sitk_image (image_processor once) = None
          \<and> current_vtk_image (image_processor once) = None
          \<and> current_polydata (image_processor once) = None
          \<and> image_metadata (image_processor once) = []
          \<and> current_image_type once = None \<and> current_file_path once = None \<and> \<not> is_3d_view once
          \<and> clearDisplay None once =
               (once, [Log Log_user_action ''CLEAR_DISPLAY'', Log Log_system_event ''DISPLAY_CLEARED'',
                       Log Log_system_event ''DATA_CLEARED'', Emit StatusUpdate ''Display cleared''])
          \<and> (\<forall>raise_at'. fst (clearDisplay raise_at' once) = once))"
proof -
  have "consistent a" using assms(1) perform_all_consistent [OF app_init_consistent] by simp
  then have wr: "window_ready (vtk_renderer a)" by (simp add: consistent_def)
  let ?r = "vtk_renderer a"
  let ?ok = "[Log Log_user_action ''CLEAR_DISPLAY'', Log Log_system_event ''DISPLAY_CLEARED'',
              Log Log_system_event ''DATA_CLEARED'', Emit StatusUpdate ''Display cleared'']"
  obtain r1 where r1: "clear_display None ?r = (r1, [Log Log_system_event ''DISPLAY_CLEARED''], True)"
    using clear_display_result [OF wr] by simp
  have r1_eq: "r1 = fst (clear_display None ?r)" by (simp add: r1)
  let ?cleared = "a\<lparr>image_processor := fst (clear_current_data (image_processor a)),
                    vtk_renderer := r1, current_image_type := None,
                    current_file_path := None, is_3d_view := False\<rparr>"
  have first: "clearDisplay None a = (?cleared, ?ok)"
    by (simp add: clearDisplay_def r1 clear_current_data_def)
  have twice: "clear_display None r1 = (r1, [Log Log_system_event ''DISPLAY_CLEARED''], True)"
    unfolding r1_eq using clear_display_twice [OF wr] .
  have second: "clearDisplay None ?cleared = (?cleared, ?ok)"
    by (simp add: clearDisplay_def twice clear_current_data_def)
  have mode: "current_display_mode r1 = None" "displayed_vtk_image r1 = None"
    "displayed_polydata r1 = None"
    unfolding r1_eq by (simp_all add: clear_display_result [OF wr])
  have props: "renderer r1 \<noteq> None \<Longrightarrow> renderer r1 = Some []"
    unfolding r1_eq by (simp add: clear_display_result [OF wr] split: if_splits)
  have any: "fst (clearDisplay raise_at' ?cleared) = ?cleared" for raise_at'
  proof (cases "snd (snd (clear_display raise_at' r1))")
    case True
    then have "clear_display raise_at' r1 = clear_display None r1"
      by (rule clear_display_returned)
    then have "clear_display raise_at' r1 = (r1, [Log Log_system_event ''DISPLAY_CLEARED''], True)"
      using twice by simp
    then show ?thesis by (simp add: clearDisplay_def clear_current_data_def)
  next
    case False
    have "fst (clear_display raise_at' r1) = r1"
      using False props by (rule clear_display_failed_cleared)
    then show ?thesis using False
      by (cases "clear_display raise_at' r1") (simp add: clearDisplay_def)
  qed
  have cases_first: "(once, reported) = (?cleared, ?ok)
      \<or> Emit ErrorOccurred ''Error clearing display: '' \<in> set reported"
  proof (cases "snd (snd (clear_display raise_at ?r))")
    case True
    then have "clear_display raise_at ?r = clear_display None ?r"
      by (rule clear_display_returned)
    then have "clearDisplay raise_at a = clearDisplay None a"
      unfolding clearDisplay_def by simp
    then show ?thesis using assms(2) first by simp
  next
    case False
    then have "Emit ErrorOccurred ''Error clearing display: '' \<in> set (snd (clearDisplay raise_at a))"
      by (cases "clear_display raise_at ?r") (simp add: clearDisplay_def)
    then show ?thesis using assms(2) by simp
  qed
  have none: "raise_at = None \<longrightarrow> reported = ?ok" using assms(2) first by auto
  have after: "Emit ErrorOccurred ''Error clearing display: '' \<notin> set reported \<longrightarrow> once = ?cleared"
    using cases_first by auto
  show ?thesis
  proof (intro conjI impI)
    show "raise_at = None \<Longrightarrow> reported = ?ok" using none by simp
  next
    assume "Emit ErrorOccurred ''Error clearing display: '' \<notin> set reported"
    then have once: "once = ?cleared" using after by simp
    show "current_display_mode (vtk_renderer once) = None" unfolding once using mode by simp
    show "displayed_vtk_image (vtk_renderer once) = None" unfolding once using mode by simp
    show "displayed_polydata (vtk_renderer once) = None" unfolding once using mode by simp
    show "current_sitk_image (image_processor once) = None" unfolding once
      by (simp add: clear_current_data_def)
    show "current_vtk_image (image_processor once) = None" unfolding once
      by (simp add: clear_current_data_def)
    show "current_polydata (image_processor once) = None" unfolding once
      by (simp add: clear_current_data_def)
    show "image_metadata (image_processor once) = []" unfolding once
      by (simp add: clear_current_data_def)
    show "current_image_type once = None" unfolding once by simp
    show "current_file_path once = None" unfolding once by simp
    show "\<not> is_3d_view once" unfolding once by simp
    show "clearDisplay None once = (once, ?ok)" unfolding once using second .
    show "\<forall>raise_at'. fst (clearDisplay raise_at' once) = once" unfolding once using any by blast
  qed
qed


theorem clearDisplay_idempotent_witness:
  "ct_app = perform_all [InitializeVtkWidget None,
                         LoadDicomSeries ct_reader (Returns ()) None ''/data/ct''] app_init
   \<and> current_sitk_image (image_processor ct_app) = Some ct_image
   \<and> snd (clearDisplay None ct_app) =
        [Log Log_user_action ''CLEAR_DISPLAY'', Log Log_system_event ''DISPLAY_CLEARED'',
         Log Log_system_event ''DATA_CLEARED'', Emit StatusUpdate ''Display cleared'']
   \<and> current_display_mode (vtk_renderer (fst (clearDisplay None ct_app))) = None
   \<and> current_sitk_image (image_processor (fst (clearDisplay None ct_app))) = None
   \<and> current_vtk_image (image_processor (fst (clearDisplay None ct_app))) = None
   \<and> image_metadata (image_processor (fst (clearDisplay None ct_app))) = []
   \<and> clearDisplay None (fst (clearDisplay None ct_app)) =
        (fst (clearDisplay None ct_app),
         [Log Log_user_action ''CLEAR_DISPLAY'', Log Log_system_event ''DISPLAY_CLEARED'',
          Log Log_system_event ''DATA_CLEARED'', Emit StatusUpdate ''Display cleared''])"
proof -
  have reach: "ct_app = perform_all [InitializeVtkWidget None,
                         LoadDicomSeries ct_reader (Returns ()) None ''/data/ct''] app_init"
    by (simp add: ct_app_def ready_app_def)
  have pair: "clearDisplay None ct_app = (fst (clearDisplay None ct_app), snd (clearDisplay None ct_app))"
    by simp
  note result = clearDisplay_idempotent [OF reach pair]
  have reported: "snd (clearDisplay None ct_app) =
        [Log Log_user_action ''CLEAR_DISPLAY'', Log Log_system_event ''DISPLAY_CLEARED'',
         Log Log_system_event ''DATA_CLEARED'', Emit StatusUpdate ''Display cleared'']"
    using result by blast
  have no_error: "Emit ErrorOccurred ''Error clearing display: '' \<notin> set (snd (clearDisplay None ct_app))"
    unfolding reported by simp
  show ?thesis
  proof (intro conjI)
    show "ct_app = perform_all [InitializeVtkWidget None,
                         LoadDicomSeries ct_reader (Returns ()) None ''/data/ct''] app_init"
      by (rule reach)
    show "current_sitk_image (image_processor ct_app) = Some ct_image"
      by (rule ct_app_fields(4))
    show "snd (clearDisplay None ct_app) =
        [Log Log_user_action ''CLEAR_DISPLAY'', Log Log_system_event ''DISPLAY_CLEARED'',
         Log Log_system_event ''DATA_CLEARED'', Emit StatusUpdate ''Display cleared'']"
      by (rule reported)
    show "current_display_mode (vtk_renderer (fst (clearDisplay None ct_app))) = None"
      using result no_error by blast
    show "current_sitk_image (image_processor (fst (clearDisplay None ct_app))) = None"
      using result no_error by blast
    show "current_vtk_image (image_processor (fst (clearDisplay None ct_app))) = None"
      using result no_error by blast
    show "image_metadata (image_processor (fst (clearDisplay None ct_app))) = []"
      using result no_error by blast
    show "clearDisplay None (fst (clearDisplay None ct_app)) =
        (fst (clearDisplay None ct_app),
         [Log Log_user_action ''CLEAR_DISPLAY'', Log Log_system_event ''DISPLAY_CLEARED'',
          Log Log_system_event ''DATA_CLEARED'', Emit StatusUpdate ''Display cleared''])"
      using result no_error by blast
  qed
qed

section \<open>Results: resident data and display mode\<close>











end
